theory Spec2Isabelle
  imports Main "HOL-Library.Sublist" "HOL-Library.AList"
begin

section \<open>The build environment\<close>

text \<open>
  \<^verbatim>\<open>cxx_builder.py\<close> reads its surroundings through module constants, the global
  configuration object, environment variables and helpers of other modules. Everything it
  reads and does not compute itself is a field of the record \<open>env\<close>:
  \<^item> \<open>sys_platform\<close>, \<open>platform_machine\<close>, \<open>os_uname_machine\<close>: \<^verbatim>\<open>sys.platform\<close>,
    \<^verbatim>\<open>platform.machine()\<close>, \<^verbatim>\<open>os.uname().machine\<close>;
  \<^item> \<open>os_environ\<close>: \<^verbatim>\<open>os.environ\<close> (\<^verbatim>\<open>os.getenv(k)\<close> is \<open>os_environ e k\<close>);
  \<^item> \<open>os_path_exists\<close>: \<^verbatim>\<open>os.path.exists\<close> while options are composed;
  \<^item> \<open>ntpath_join\<close>: \<^verbatim>\<open>os.path.join\<close> of a Windows interpreter (first argument and
    the remaining ones); the POSIX one is \<open>posixpath_join\<close> below;
  \<^item> \<open>config_*\<close>: the fields of \<^verbatim>\<open>torch._inductor.config\<close> that are read;
  \<^item> \<open>codecache_*\<close>, \<open>cuda_env_*\<close>, \<open>cpp_extension_*\<close>, \<open>torch_*\<close>, \<open>sysconfig_*\<close>,
    \<open>sys_executable_dirname\<close>, \<open>apple_clang\<close>: results of helpers that live in other
    modules (\<^verbatim>\<open>codecache.cpp_compiler()\<close>, \<^verbatim>\<open>str(chosen_isa)\<close>,
    \<^verbatim>\<open>chosen_isa.build_arch_flags()\<close>, \<^verbatim>\<open>cuda_env.nvcc_exist\<close>,
    \<^verbatim>\<open>cuda_env.get_cuda_arch()\<close>, \<^verbatim>\<open>cpp_extension._join_cuda_home\<close>, ...) or of a
    subprocess (\<^verbatim>\<open>is_apple_clang\<close> runs \<^verbatim>\<open>compiler --version\<close>). They are taken as
    total functions of their arguments, with one exception:
    \<open>cpp_extension_join_cuda_home\<close> is \<open>None\<close> where \<^verbatim>\<open>_join_cuda_home\<close> raises
    \<^verbatim>\<open>OSError\<close>, which it does when no CUDA install root was found.
  A Python \<^verbatim>\<open>str\<close> is a \<open>string\<close>; \<^verbatim>\<open>Optional[str]\<close> is \<open>string option\<close>.
  \<open>sysconfig_include_path\<close> is \<^verbatim>\<open>sysconfig.get_path("include", scheme=...)\<close>, which the
  source tests for \<^verbatim>\<open>None\<close>; \<open>sysconfig_LIBDIR\<close> and \<open>cuda_env_get_cuda_arch\<close> are
  used by the source as they come and are strings here.
\<close>

record env =
  sys_platform :: string
  platform_machine :: string
  os_uname_machine :: string
  os_environ :: "string \<rightharpoonup> string"
  os_path_exists :: "string \<Rightarrow> bool"
  ntpath_join :: "string \<Rightarrow> string list \<Rightarrow> string"
  config_is_fbcode :: bool
  config_aot_inductor_debug_compile :: bool
  config_cpp_enable_unsafe_math_opt_flag :: bool
  config_cuda_cuda_cxx :: "string option"
  config_cuda_cutlass_dir :: string
  config_cuda_enable_cuda_lto :: bool
  config_cuda_compile_opt_level :: string
  config_cuda_enable_debug_info :: bool
  config_cuda_enable_ptxas_info :: bool
  config_cuda_use_fast_math :: bool
  codecache_cpp_compiler :: string
  codecache_chosen_isa_str :: string
  codecache_chosen_isa_build_arch_flags :: string
  codecache_is_conda_llvm_openmp_installed :: bool
  codecache_homebrew_libomp :: "bool \<times> string"
  apple_clang :: "string \<Rightarrow> bool"
  torch_GLIBCXX_USE_CXX11_ABI :: bool
  torch_TORCH_PATH :: string
  torch_TORCH_LIB_PATH :: string
  sysconfig_include_path :: "string option"
  sysconfig_LIBDIR :: string
  sys_executable_dirname :: string
  cuda_env_nvcc_exist :: "string option \<Rightarrow> bool"
  cuda_env_get_cuda_arch :: string
  cpp_extension_join_cuda_home :: "string list \<Rightarrow> string option"

text \<open>The exceptions the module raises or lets through.\<close>

datatype error =
    NotImplementedError string
  | RuntimeError string
  | ValueError
  | OSError
  | UnicodeDecodeError
  | CppCompileError "string list" string

definition IS_LINUX :: "env \<Rightarrow> bool" where
  "IS_LINUX e = prefix ''linux'' (sys_platform e)"

definition IS_MACOS :: "env \<Rightarrow> bool" where
  "IS_MACOS e = prefix ''darwin'' (sys_platform e)"

definition IS_WINDOWS :: "env \<Rightarrow> bool" where
  "IS_WINDOWS e = (sys_platform e = ''win32'')"

definition BUILD_TEMP_DIR :: string where
  "BUILD_TEMP_DIR = ''CxxBuild''"

section \<open>String helpers of the Python runtime\<close>

text \<open>\<^verbatim>\<open>needle in hay\<close> on strings: \<open>needle\<close> occurs as a contiguous piece of \<open>hay\<close>.\<close>

fun str_in :: "string \<Rightarrow> string \<Rightarrow> bool" where
  "str_in needle [] = (needle = [])"
| "str_in needle (c # cs) = (prefix needle (c # cs) \<or> str_in needle cs)"

text \<open>\<^verbatim>\<open>sep.join(xs)\<close>.\<close>

fun str_join :: "string \<Rightarrow> string list \<Rightarrow> string" where
  "str_join sep [] = []"
| "str_join sep [x] = x"
| "str_join sep (x # y # ys) = x @ sep @ str_join sep (y # ys)"

text \<open>
  \<^verbatim>\<open>s.upper()\<close>: the ASCII letters are mapped to capitals, every other character is
  kept (the ISA names it is applied to are ASCII).
\<close>

definition upper_char :: "char \<Rightarrow> char" where
  "upper_char c =
     (case map_of (zip ''abcdefghijklmnopqrstuvwxyz'' ''ABCDEFGHIJKLMNOPQRSTUVWXYZ'') c of
        None \<Rightarrow> c
      | Some u \<Rightarrow> u)"

definition str_upper :: "string \<Rightarrow> string" where
  "str_upper s = map upper_char s"

text \<open>\<^verbatim>\<open>s.replace(a, b)\<close> for one-character \<open>a\<close> and \<open>b\<close>.\<close>

definition str_replace_char :: "char \<Rightarrow> char \<Rightarrow> string \<Rightarrow> string" where
  "str_replace_char a b s = map (\<lambda>c. if c = a then b else c) s"

text \<open>\<^verbatim>\<open>cmd.replace("\\", "/")\<close>, the replacement made on the Windows command line.\<close>

definition slashed :: "string \<Rightarrow> string" where
  "slashed s = str_replace_char (CHR 0x5C) (CHR ''/'') s"

text \<open>
  \<^verbatim>\<open>posixpath.join(a, *p)\<close>: a component that starts with the separator replaces what
  came before; a separator is inserted unless the path so far is empty or ends with one.
\<close>

definition posixpath_join_step :: "string \<Rightarrow> string \<Rightarrow> string" where
  "posixpath_join_step path b =
     (if prefix ''/'' b then b
      else if path = [] \<or> last path = CHR ''/'' then path @ b
      else path @ ''/'' @ b)"

definition posixpath_join :: "string \<Rightarrow> string list \<Rightarrow> string" where
  "posixpath_join a p = foldl posixpath_join_step a p"

text \<open>\<^verbatim>\<open>os.path\<close> is \<^verbatim>\<open>ntpath\<close> on Windows and \<^verbatim>\<open>posixpath\<close> elsewhere.\<close>

definition os_path_join :: "env \<Rightarrow> string \<Rightarrow> string list \<Rightarrow> string" where
  "os_path_join e a p = (if IS_WINDOWS e then ntpath_join e a p else posixpath_join a p)"

section \<open>Flag tables\<close>

definition get_cxx_compiler :: "env \<Rightarrow> string" where
  "get_cxx_compiler e =
     (if IS_WINDOWS e then (case os_environ e ''CXX'' of None \<Rightarrow> ''cl'' | Some c \<Rightarrow> c)
      else codecache_cpp_compiler e)"

text \<open>
  \<^verbatim>\<open>_nonduplicate_append(dest_list, src_list)\<close>: the loop over \<open>src_list\<close>, each item
  appended at the end of \<open>dest_list\<close> unless it is already there. The source mutates
  \<open>dest_list\<close> in place; the model returns the new list.
\<close>

fun nonduplicate_append :: "string list \<Rightarrow> string list \<Rightarrow> string list" where
  "nonduplicate_append dest_list [] = dest_list"
| "nonduplicate_append dest_list (item # src_list) =
     nonduplicate_append
       (if item \<notin> set dest_list then dest_list @ [item] else dest_list) src_list"

text \<open>\<^verbatim>\<open>re.search(r"(gcc|g\+\+)", s)\<close> and \<^verbatim>\<open>re.search(r"(clang|clang\+\+)", s)\<close>.\<close>

definition is_gcc :: "string \<Rightarrow> bool" where
  "is_gcc cpp_compiler = (str_in ''gcc'' cpp_compiler \<or> str_in ''g++'' cpp_compiler)"

definition is_clang :: "string \<Rightarrow> bool" where
  "is_clang cpp_compiler = (str_in ''clang'' cpp_compiler \<or> str_in ''clang++'' cpp_compiler)"

definition is_apple_clang :: "env \<Rightarrow> string \<Rightarrow> bool" where
  "is_apple_clang e cpp_compiler = apple_clang e cpp_compiler"

definition get_warning_all_flag :: "env \<Rightarrow> bool \<Rightarrow> string list" where
  "get_warning_all_flag e warning_all =
     (if \<not> IS_WINDOWS e then (if warning_all then [''Wall''] else []) else [])"

definition get_cxx_std :: "env \<Rightarrow> string \<Rightarrow> string list" where
  "get_cxx_std e std_num =
     (if IS_WINDOWS e then [''std:'' @ std_num] else [''std='' @ std_num])"

definition get_linux_cpp_cflags :: "env \<Rightarrow> string \<Rightarrow> string list" where
  "get_linux_cpp_cflags e cpp_compiler =
     (if \<not> IS_WINDOWS e then
        (let cflags = [''Wno-unused-variable'', ''Wno-unknown-pragmas''] in
         if is_clang cpp_compiler then cflags @ [''Werror=ignored-optimization-argument'']
         else cflags)
      else [])"

definition optimization_cflags :: "env \<Rightarrow> string list" where
  "optimization_cflags e =
     (if IS_WINDOWS e then [''O2'']
      else
        (let cflags = (if config_aot_inductor_debug_compile e then [''O0'', ''g'']
                       else [''O3'', ''DNDEBUG'']);
             cflags = cflags @ [''ffast-math''];
             cflags = cflags @ [''fno-finite-math-only''];
             cflags = (if \<not> config_cpp_enable_unsafe_math_opt_flag e
                       then cflags @ [''fno-unsafe-math-optimizations''] else cflags)
         in if config_is_fbcode e then cflags
            else if sys_platform e = ''darwin'' then cflags @ [''Xclang'']
            else if platform_machine e = ''ppc64le'' then cflags @ [''mcpu=native'']
            else cflags @ [''march=native'']))"

definition get_shared_cflag :: "env \<Rightarrow> string list" where
  "get_shared_cflag e = (if IS_WINDOWS e then [''DLL''] else [''shared'', ''fPIC''])"

definition get_glibcxx_abi_build_flags :: "env \<Rightarrow> string list" where
  "get_glibcxx_abi_build_flags e =
     [''-D_GLIBCXX_USE_CXX11_ABI='' @ (if torch_GLIBCXX_USE_CXX11_ABI e then ''1'' else ''0'')]"

definition get_torch_cpp_wrapper_defination :: "string list" where
  "get_torch_cpp_wrapper_defination = [''TORCH_INDUCTOR_CPP_WRAPPER'']"

definition use_custom_generated_macros :: "string list" where
  "use_custom_generated_macros = ['' C10_USING_CUSTOM_GENERATED_MACROS'']"

definition use_fb_internal_macros :: "env \<Rightarrow> string list" where
  "use_fb_internal_macros e =
     (if \<not> IS_WINDOWS e then
        (if config_is_fbcode e then
           [str_join '' '' [''-D C10_USE_GLOG'', ''-D C10_USE_MINIMAL_GLOG'',
                            ''-D C10_DISABLE_TENSORIMPL_EXTENSIBILITY'']]
         else [])
      else [])"

definition use_standard_sys_dir_headers :: "env \<Rightarrow> string list" where
  "use_standard_sys_dir_headers e =
     (if IS_WINDOWS e then []
      else if config_is_fbcode e then [''nostdinc'']
      else [])"

definition get_build_args_of_chosen_isa :: "env \<Rightarrow> string list \<times> string list" where
  "get_build_args_of_chosen_isa e =
     (let cap = str_upper (codecache_chosen_isa_str e);
          macros = [''CPU_CAPABILITY='' @ cap,
                    ''CPU_CAPABILITY_'' @ cap,
                    ''HAVE_'' @ cap @ ''_CPU_DEFINITION''];
          build_flags = [codecache_chosen_isa_build_arch_flags e]
      in (macros, build_flags))"

definition get_torch_related_args :: "env \<Rightarrow> string list \<times> string list \<times> string list" where
  "get_torch_related_args e =
     (let include_dirs =
            [os_path_join e (torch_TORCH_PATH e) [''include''],
             os_path_join e (torch_TORCH_PATH e)
               [''include'', ''torch'', ''csrc'', ''api'', ''include''],
             os_path_join e (torch_TORCH_PATH e) [''include'', ''TH''],
             os_path_join e (torch_TORCH_PATH e) [''include'', ''THC'']];
          libraries_dirs = [torch_TORCH_LIB_PATH e];
          libraries = [''torch'', ''torch_cpu'', ''c10'']
      in (include_dirs, libraries_dirs, libraries))"

definition get_python_related_args :: "env \<Rightarrow> string list \<times> string list" where
  "get_python_related_args e =
     (let python_include_dirs =
            (case sysconfig_include_path e of None \<Rightarrow> [] | Some p \<Rightarrow> [p]);
          python_lib_path =
            (if IS_WINDOWS e then [os_path_join e (sys_executable_dirname e) [''libs'']]
             else [sysconfig_LIBDIR e])
      in (python_include_dirs, python_lib_path))"

text \<open>
  \<^verbatim>\<open>get_openmp_args\<close>. The macOS branch threads \<open>omp_available\<close> and the three local
  lists through its probes in the source's order; local lists grow by plain
  \<^verbatim>\<open>append\<close>. The result is
  \<open>(cflags, ldflags, include_dir_paths, lib_dir_paths, libs)\<close>.
\<close>

definition get_openmp_args_macos ::
  "env \<Rightarrow> string \<Rightarrow> string list \<times> string list \<times> string list" where
  "get_openmp_args_macos e cpp_compiler =
     (let omp_available = (\<not> is_apple_clang e cpp_compiler);
          (omp_available, include_dir_paths, lib_dir_paths) =
            (case os_environ e ''OMP_PREFIX'' of
               None \<Rightarrow> (omp_available, [], [])
             | Some omp_prefix \<Rightarrow>
                 (let header_path = os_path_join e omp_prefix [''include'', ''omp.h''];
                      valid_env = os_path_exists e header_path
                  in if valid_env
                     then (omp_available \<or> valid_env,
                           [os_path_join e omp_prefix [''include'']],
                           [os_path_join e omp_prefix [''lib'']])
                     else (omp_available \<or> valid_env, [], [])));
          libs = (if \<not> omp_available then [''omp''] else []);
          (omp_available, include_dir_paths, lib_dir_paths, libs) =
            (case os_environ e ''CONDA_PREFIX'' of
               None \<Rightarrow> (omp_available, include_dir_paths, lib_dir_paths, libs)
             | Some conda_prefix \<Rightarrow>
                 if \<not> omp_available then
                   (let omp_available = codecache_is_conda_llvm_openmp_installed e in
                    if omp_available then
                      (let conda_lib_path = os_path_join e conda_prefix [''lib''];
                           include_dir_paths =
                             include_dir_paths @ [os_path_join e conda_prefix [''include'']];
                           lib_dir_paths = lib_dir_paths @ [conda_lib_path];
                           libs = (if os_uname_machine e = ''x86_64'' \<and>
                                      os_path_exists e
                                        (os_path_join e conda_lib_path [''libiomp5.dylib''])
                                   then libs @ [''iomp5''] else libs)
                       in (omp_available, include_dir_paths, lib_dir_paths, libs))
                    else (omp_available, include_dir_paths, lib_dir_paths, libs))
                 else (omp_available, include_dir_paths, lib_dir_paths, libs));
          (include_dir_paths, lib_dir_paths) =
            (if \<not> omp_available then
               (let (omp_available, libomp_path) = codecache_homebrew_libomp e in
                if omp_available
                then (include_dir_paths @ [os_path_join e libomp_path [''include'']],
                      lib_dir_paths @ [os_path_join e libomp_path [''lib'']])
                else (include_dir_paths, lib_dir_paths))
             else (include_dir_paths, lib_dir_paths))
      in (include_dir_paths, lib_dir_paths, libs))"

definition get_openmp_args ::
  "env \<Rightarrow> string \<Rightarrow> string list \<times> string list \<times> string list \<times> string list \<times> string list" where
  "get_openmp_args e cpp_compiler =
     (if IS_MACOS e then
        (let (include_dir_paths, lib_dir_paths, libs) = get_openmp_args_macos e cpp_compiler
         in ([], [], include_dir_paths, lib_dir_paths, libs))
      else if IS_WINDOWS e then ([''openmp''], [], [], [], [])
      else if config_is_fbcode e then ([], [], [], [], [''omp''])
      else if is_clang cpp_compiler then ([''fopenmp''], [], [], [], [''gomp''])
      else ([''fopenmp''], [], [], [], [''gomp'']))"

text \<open>
  \<^verbatim>\<open>_cuda_compiler() -> Optional[str]\<close>. \<^verbatim>\<open>os.getenv("CUDACXX", "")\<close> is the value of
  the variable, or the empty string when it is unset.
\<close>

definition cuda_compiler :: "env \<Rightarrow> string option" where
  "cuda_compiler e =
     (if cuda_env_nvcc_exist e (config_cuda_cuda_cxx e) then config_cuda_cuda_cxx e
      else if cuda_env_nvcc_exist e (os_environ e ''CUDACXX'')
        then Some (case os_environ e ''CUDACXX'' of None \<Rightarrow> [] | Some v \<Rightarrow> v)
      else if cuda_env_nvcc_exist e (os_environ e ''CUDA_HOME'')
        then Some (os_path_join e
                     (case os_environ e ''CUDA_HOME'' of None \<Rightarrow> [] | Some v \<Rightarrow> v)
                     [''bin/nvcc''])
      else Some ''nvcc'')"

definition unsupported_env_message :: string where
  "unsupported_env_message =
     ''Unsupported env, failed to find cuda libs! Currently only Linux is supported.''"

text \<open>\<^verbatim>\<open>cpp_extension._join_cuda_home(*paths)\<close>: the joined path, or \<^verbatim>\<open>OSError\<close>.\<close>

definition join_cuda_home :: "env \<Rightarrow> string list \<Rightarrow> error + string" where
  "join_cuda_home e paths =
     (case cpp_extension_join_cuda_home e paths of None \<Rightarrow> Inl OSError | Some p \<Rightarrow> Inr p)"

text \<open>
  \<^verbatim>\<open>get_torch_cuda_args\<close>. The result is \<open>(cuda_include_dirs, cuda_libs, cuda_lib_dirs)\<close>.
  The calls of \<^verbatim>\<open>_join_cuda_home\<close> happen in the source's order and the first one that
  raises leaves the function; \<^verbatim>\<open>and\<close> evaluates its second operand only when
  \<^verbatim>\<open>lib64\<close> does not exist.
\<close>

definition get_torch_cuda_args ::
  "env \<Rightarrow> error + (string list \<times> string list \<times> string list)" where
  "get_torch_cuda_args e =
     (let cutlass_path = config_cuda_cutlass_dir e;
          cuda_include_dirs =
            [os_path_join e cutlass_path [''include''],
             os_path_join e cutlass_path [''tools/library/include''],
             os_path_join e cutlass_path [''tools/library/src''],
             os_path_join e cutlass_path [''tools/util/include'']]
      in if IS_LINUX e then
           (case join_cuda_home e [''lib64''] of
              Inl err \<Rightarrow> Inl err
            | Inr lib64_path \<Rightarrow>
                (case (if \<not> os_path_exists e lib64_path
                       then (case join_cuda_home e [''lib''] of
                               Inl err \<Rightarrow> Inl err
                             | Inr lib_path \<Rightarrow>
                                 Inr (if os_path_exists e lib_path then ''lib'' else ''lib64''))
                       else Inr ''lib64'') of
                   Inl err \<Rightarrow> Inl err
                 | Inr extra_lib_dir \<Rightarrow>
                     (case join_cuda_home e [extra_lib_dir] of
                        Inl err \<Rightarrow> Inl err
                      | Inr dir1 \<Rightarrow>
                          (case join_cuda_home e [extra_lib_dir, ''stubs''] of
                             Inl err \<Rightarrow> Inl err
                           | Inr dir2 \<Rightarrow>
                               (let cuda_lib_dirs = [dir1, dir2];
                                    cuda_libs = [''cuda'', ''cudart'']
                                in Inr (cuda_include_dirs, cuda_libs, cuda_lib_dirs))))))
         else Inl (NotImplementedError unsupported_env_message))"

definition get_nvcc_host_compiler_options :: "env \<Rightarrow> string list" where
  "get_nvcc_host_compiler_options e =
     (if \<not> IS_WINDOWS e
      then [''fPIC'', ''fno-strict-aliasing'', ''fvisibility=hidden'', ''Wconversion'']
      else [])"

text \<open>The result is \<open>(cuda_cflags, cuda_defines, cuda_pass_args)\<close>.\<close>

definition get_nvcc_compiler_options ::
  "env \<Rightarrow> error + (string list \<times> string list \<times> string list)" where
  "get_nvcc_compiler_options e =
     (if \<not> IS_WINDOWS e then
        (let arch = cuda_env_get_cuda_arch e;
             arch = (if arch = ''90'' then ''90a'' else arch);
             code = [''sm_'' @ arch, ''compute_'' @ arch];
             code = (if config_cuda_enable_cuda_lto e then code @ [''lto_'' @ arch] else code);
             cuda_cflags = [''t=0''];
             cuda_defines = [''CUTLASS_ENABLE_TENSOR_CORE_MMA=1''];
             cuda_pass_args =
               [''-w'',
                ''-gencode=arch=compute_'' @ arch @ '',code=['' @ str_join '','' code @ '']'',
                config_cuda_compile_opt_level e,
                ''--expt-relaxed-constexpr''];
             (cuda_cflags, cuda_defines) =
               (if config_cuda_enable_debug_info e
                then (cuda_cflags @ [''lineinfo'', ''g''],
                      cuda_defines @ [''CUTLASS_DEBUG_TRACE_LEVEL=1''])
                else (cuda_cflags, cuda_defines));
             cuda_pass_args =
               (if config_cuda_enable_ptxas_info e
                then cuda_pass_args @
                     [''--keep'',
                      ''--ptxas-options=--warn-on-local-memory-usage'',
                      ''--ptxas-options=--warn-on-spills'',
                      ''--resource-usage'',
                      ''--source-in-ptx'']
                else cuda_pass_args);
             (cuda_pass_args, cuda_defines) =
               (if config_cuda_use_fast_math e
                then (cuda_pass_args @ [''--use_fast_math''],
                      cuda_defines @ [''CUTLASS_USE_TANH_FOR_SIGMOID=1''])
                else (cuda_pass_args, cuda_defines))
         in Inr (cuda_cflags, cuda_defines, cuda_pass_args))
      else Inl (NotImplementedError unsupported_env_message))"

section \<open>The option classes\<close>

text \<open>
  \<^verbatim>\<open>BuildOptionsBase\<close> declares its seven lists as class attributes:
  \<^verbatim>\<open>_definations: List[str] = []\<close>, \<^verbatim>\<open>_include_dirs\<close>, \<^verbatim>\<open>_cflags\<close>,
  \<^verbatim>\<open>_ldflags\<close>, \<^verbatim>\<open>_libraries_dirs\<close>, \<^verbatim>\<open>_libraries\<close>, \<^verbatim>\<open>_passthough_args\<close>.
  No subclass redeclares them and no method assigns \<^verbatim>\<open>self._cflags = ...\<close>; every
  \<^verbatim>\<open>__init__\<close> mutates the list it finds through \<^verbatim>\<open>self\<close> in place. Attribute lookup
  on an instance therefore always ends at the one list object owned by the class
  \<^verbatim>\<open>BuildOptionsBase\<close>. The record \<open>class_attrs\<close> is that store: the seven list objects
  that live for the whole life of the process. Its state when the module has just been
  imported is \<open>BuildOptionsBase\<close>.

  The only attribute an \<^verbatim>\<open>__init__\<close> assigns is \<^verbatim>\<open>self._compiler\<close>, so an instance
  (\<open>options\<close>) owns its compiler and nothing else. A getter of a list takes the store:
  it returns what the shared list holds at the time of the call.
\<close>

record class_attrs =
  definations :: "string list"
  include_dirs :: "string list"
  cflags :: "string list"
  ldflags :: "string list"
  libraries_dirs :: "string list"
  libraries :: "string list"
  passthough_args :: "string list"

record options =
  compiler :: string

definition BuildOptionsBase :: class_attrs where
  "BuildOptionsBase =
     \<lparr>definations = [], include_dirs = [], cflags = [], ldflags = [],
      libraries_dirs = [], libraries = [], passthough_args = []\<rparr>"

definition get_compiler :: "class_attrs \<Rightarrow> options \<Rightarrow> string" where
  "get_compiler cls self = compiler self"

definition get_definations :: "class_attrs \<Rightarrow> options \<Rightarrow> string list" where
  "get_definations cls self = definations cls"

definition get_include_dirs :: "class_attrs \<Rightarrow> options \<Rightarrow> string list" where
  "get_include_dirs cls self = include_dirs cls"

definition get_cflags :: "class_attrs \<Rightarrow> options \<Rightarrow> string list" where
  "get_cflags cls self = cflags cls"

definition get_ldflags :: "class_attrs \<Rightarrow> options \<Rightarrow> string list" where
  "get_ldflags cls self = ldflags cls"

definition get_libraries_dirs :: "class_attrs \<Rightarrow> options \<Rightarrow> string list" where
  "get_libraries_dirs cls self = libraries_dirs cls"

definition get_libraries :: "class_attrs \<Rightarrow> options \<Rightarrow> string list" where
  "get_libraries cls self = libraries cls"

definition get_passthough_args :: "class_attrs \<Rightarrow> options \<Rightarrow> string list" where
  "get_passthough_args cls self = passthough_args cls"

text \<open>
  A statement \<^verbatim>\<open>_nonduplicate_append(self._cflags, src)\<close> of an \<^verbatim>\<open>__init__\<close> mutates the
  shared list \<^verbatim>\<open>_cflags\<close> in place: it is the store update \<open>append_cflags src\<close>, and
  likewise for the other six lists.
\<close>

definition append_definations :: "string list \<Rightarrow> class_attrs \<Rightarrow> class_attrs" where
  "append_definations src cls = cls\<lparr>definations := nonduplicate_append (definations cls) src\<rparr>"

definition append_include_dirs :: "string list \<Rightarrow> class_attrs \<Rightarrow> class_attrs" where
  "append_include_dirs src cls =
     cls\<lparr>include_dirs := nonduplicate_append (include_dirs cls) src\<rparr>"

definition append_cflags :: "string list \<Rightarrow> class_attrs \<Rightarrow> class_attrs" where
  "append_cflags src cls = cls\<lparr>cflags := nonduplicate_append (cflags cls) src\<rparr>"

definition append_ldflags :: "string list \<Rightarrow> class_attrs \<Rightarrow> class_attrs" where
  "append_ldflags src cls = cls\<lparr>ldflags := nonduplicate_append (ldflags cls) src\<rparr>"

definition append_libraries_dirs :: "string list \<Rightarrow> class_attrs \<Rightarrow> class_attrs" where
  "append_libraries_dirs src cls =
     cls\<lparr>libraries_dirs := nonduplicate_append (libraries_dirs cls) src\<rparr>"

definition append_libraries :: "string list \<Rightarrow> class_attrs \<Rightarrow> class_attrs" where
  "append_libraries src cls = cls\<lparr>libraries := nonduplicate_append (libraries cls) src\<rparr>"

definition append_passthough_args :: "string list \<Rightarrow> class_attrs \<Rightarrow> class_attrs" where
  "append_passthough_args src cls =
     cls\<lparr>passthough_args := nonduplicate_append (passthough_args cls) src\<rparr>"

text \<open>
  \<^verbatim>\<open>CxxOptions.__init__\<close>: the new instance and the store after the five appends to
  \<^verbatim>\<open>_cflags\<close>. The default arguments of \<^verbatim>\<open>get_warning_all_flag()\<close> and
  \<^verbatim>\<open>get_cxx_std()\<close> are written out.
\<close>

definition CxxOptions_init :: "env \<Rightarrow> class_attrs \<Rightarrow> options \<times> class_attrs" where
  "CxxOptions_init e cls =
     (let self = \<lparr>compiler = get_cxx_compiler e\<rparr>;
          cls = append_cflags (get_shared_cflag e) cls;
          cls = append_cflags (optimization_cflags e) cls;
          cls = append_cflags (get_warning_all_flag e False) cls;
          cls = append_cflags (get_cxx_std e ''c++17'') cls;
          cls = append_cflags (get_linux_cpp_cflags e (compiler self)) cls
      in (self, cls))"

text \<open>\<^verbatim>\<open>CxxTorchOptions.__init__\<close>: \<^verbatim>\<open>super().__init__()\<close> first, then its own appends.\<close>

definition CxxTorchOptions_init :: "env \<Rightarrow> class_attrs \<Rightarrow> options \<times> class_attrs" where
  "CxxTorchOptions_init e cls =
     (let (self, cls) = CxxOptions_init e cls;
          cls = append_definations get_torch_cpp_wrapper_defination cls;
          cls = append_definations use_custom_generated_macros cls;
          cls = append_cflags (use_standard_sys_dir_headers e) cls;
          (macros, build_flags) = get_build_args_of_chosen_isa e;
          cls = append_definations macros cls;
          cls = append_passthough_args build_flags cls;
          (torch_include_dirs, torch_libraries_dirs, torch_libraries) =
            get_torch_related_args e;
          cls = append_include_dirs torch_include_dirs cls;
          cls = append_libraries_dirs torch_libraries_dirs cls;
          cls = append_libraries torch_libraries cls;
          (python_include_dirs, python_libraries_dirs) = get_python_related_args e;
          cls = append_include_dirs python_include_dirs cls;
          cls = append_libraries_dirs python_libraries_dirs cls;
          (omp_cflags, omp_ldflags, omp_include_dir_paths, omp_lib_dir_paths, omp_lib) =
            get_openmp_args e (compiler self);
          cls = append_cflags omp_cflags cls;
          cls = append_ldflags omp_ldflags cls;
          cls = append_include_dirs omp_include_dir_paths cls;
          cls = append_libraries_dirs omp_lib_dir_paths cls;
          cls = append_libraries omp_lib cls;
          cls = (if \<not> IS_WINDOWS e then
                   (let cls = append_passthough_args (get_glibcxx_abi_build_flags e) cls
                    in append_passthough_args (use_fb_internal_macros e) cls)
                 else cls)
      in (self, cls))"

text \<open>
  \<^verbatim>\<open>CxxTorchCudaOptions.__init__\<close>. \<^verbatim>\<open>get_torch_cuda_args\<close> and
  \<^verbatim>\<open>get_nvcc_compiler_options\<close> may raise; the exception leaves \<^verbatim>\<open>__init__\<close>, no
  instance is returned, and what was appended to the shared lists before stays there.
  The CUDA flags, defines and pass-through arguments are all appended to \<^verbatim>\<open>_cflags\<close>.
\<close>

definition CxxTorchCudaOptions_init ::
  "env \<Rightarrow> class_attrs \<Rightarrow> (error + options) \<times> class_attrs" where
  "CxxTorchCudaOptions_init e cls =
     (let (self, cls) = CxxTorchOptions_init e cls;
          nvcc = cuda_compiler e;
          self = (case nvcc of None \<Rightarrow> self | Some c \<Rightarrow> self\<lparr>compiler := c\<rparr>)
      in case get_torch_cuda_args e of
           Inl err \<Rightarrow> (Inl err, cls)
         | Inr (cuda_include_dirs, cuda_libs, cuda_lib_dirs) \<Rightarrow>
             (let cls = append_include_dirs cuda_include_dirs cls;
                  cls = append_libraries cuda_libs cls;
                  cls = append_libraries_dirs cuda_lib_dirs cls;
                  cuda_host_cflags = get_nvcc_host_compiler_options e
              in case get_nvcc_compiler_options e of
                   Inl err \<Rightarrow> (Inl err, cls)
                 | Inr (cuda_cflags, cuda_defines, cuda_pass_args) \<Rightarrow>
                     (let cls = append_cflags cuda_host_cflags cls;
                          cls = append_cflags cuda_cflags cls;
                          cls = append_cflags cuda_defines cls;
                          cls = append_cflags cuda_pass_args cls
                      in (Inr self, cls))))"

text \<open>The seven lists of the store are free of duplicates.\<close>

definition no_duplicates :: "class_attrs \<Rightarrow> bool" where
  "no_duplicates cls =
     (distinct (definations cls) \<and> distinct (include_dirs cls) \<and> distinct (cflags cls) \<and>
      distinct (ldflags cls) \<and> distinct (libraries_dirs cls) \<and> distinct (libraries cls) \<and>
      distinct (passthough_args cls))"

text \<open>
  Each list of \<open>cls'\<close> starts with the list of \<open>cls\<close>: entries were only added, at the
  end.
\<close>

definition extends :: "class_attrs \<Rightarrow> class_attrs \<Rightarrow> bool" where
  "extends cls cls' =
     (prefix (definations cls) (definations cls') \<and>
      prefix (include_dirs cls) (include_dirs cls') \<and>
      prefix (cflags cls) (cflags cls') \<and>
      prefix (ldflags cls) (ldflags cls') \<and>
      prefix (libraries_dirs cls) (libraries_dirs cls') \<and>
      prefix (libraries cls) (libraries cls') \<and>
      prefix (passthough_args cls) (passthough_args cls'))"

text \<open>
  Proof device: \<open>append_all src\<close> appends, list by list and without duplicates, the seven
  lists of \<open>src\<close> to those of the store. Every \<^verbatim>\<open>__init__\<close> turns out to be one such
  update whose \<open>src\<close> depends on the environment only (\<open>is_appender\<close>).
\<close>

definition append_all :: "class_attrs \<Rightarrow> class_attrs \<Rightarrow> class_attrs" where
  "append_all src cls =
     \<lparr>definations = nonduplicate_append (definations cls) (definations src),
      include_dirs = nonduplicate_append (include_dirs cls) (include_dirs src),
      cflags = nonduplicate_append (cflags cls) (cflags src),
      ldflags = nonduplicate_append (ldflags cls) (ldflags src),
      libraries_dirs = nonduplicate_append (libraries_dirs cls) (libraries_dirs src),
      libraries = nonduplicate_append (libraries cls) (libraries src),
      passthough_args = nonduplicate_append (passthough_args cls) (passthough_args src)\<rparr>"

definition is_appender :: "(class_attrs \<Rightarrow> class_attrs) \<Rightarrow> bool" where
  "is_appender f = (\<exists>src. \<forall>cls. f cls = append_all src cls)"


section \<open>The builder\<close>

text \<open>
  \<^verbatim>\<open>CxxBuilder\<close> keeps strings only; \<^verbatim>\<open>+=\<close> on a string attribute rebinds it on the
  instance, so nothing is shared between builders. Each rendering loop of
  \<^verbatim>\<open>__init__\<close> is a left fold that starts from the empty class default.
  \<^verbatim>\<open>output_dir\<close> is \<open>None\<close> or a string; for \<open>None\<close> the directory of the module
  file (\<open>module_dirname\<close>) is used.
\<close>

record CxxBuilder =
  builder_compiler :: string
  cflags_args :: string
  definations_args :: string
  include_dirs_args :: string
  ldflags_args :: string
  libraries_dirs_args :: string
  libraries_args :: string
  passthough_parameters_args :: string
  builder_name :: string
  sources_args :: string
  builder_output_dir :: string
  target_file :: string

definition get_shared_lib_ext :: "env \<Rightarrow> string" where
  "get_shared_lib_ext e = (if IS_WINDOWS e then ''.dll'' else ''.so'')"

definition CxxBuilder_init ::
  "env \<Rightarrow> string \<Rightarrow> string \<Rightarrow> string list \<Rightarrow> class_attrs \<Rightarrow> options \<Rightarrow> string option
     \<Rightarrow> CxxBuilder" where
  "CxxBuilder_init e module_dirname name sources cls BuildOption output_dir =
     (let out_dir = (case output_dir of None \<Rightarrow> module_dirname | Some d \<Rightarrow> d) in
      \<lparr>builder_compiler = get_compiler cls BuildOption,
       cflags_args =
         foldl (\<lambda>acc cflag. acc @ (if IS_WINDOWS e then ''/'' @ cflag @ '' ''
                                    else ''-'' @ cflag @ '' ''))
           [] (get_cflags cls BuildOption),
       definations_args =
         foldl (\<lambda>acc defination. acc @ (if IS_WINDOWS e then ''/D '' @ defination @ '' ''
                                         else ''-D'' @ defination @ '' ''))
           [] (get_definations cls BuildOption),
       include_dirs_args =
         foldl (\<lambda>acc inc_dir. acc @ (if IS_WINDOWS e then ''/I '' @ inc_dir @ '' ''
                                      else ''-I'' @ inc_dir @ '' ''))
           [] (get_include_dirs cls BuildOption),
       ldflags_args =
         foldl (\<lambda>acc ldflag. acc @ (if IS_WINDOWS e then ''/'' @ ldflag @ '' ''
                                     else ''-'' @ ldflag @ '' ''))
           [] (get_ldflags cls BuildOption),
       libraries_dirs_args =
         foldl (\<lambda>acc lib_dir. acc @ (if IS_WINDOWS e
                                      then ''/LIBPATH:'' @ [CHR 0x22] @ lib_dir @ [CHR 0x22] @ '' ''
                                      else ''-L'' @ lib_dir @ '' ''))
           [] (get_libraries_dirs cls BuildOption),
       libraries_args =
         foldl (\<lambda>acc lib. acc @ (if IS_WINDOWS e
                                  then [CHR 0x22] @ lib @ ''.lib'' @ [CHR 0x22] @ '' ''
                                  else ''-l'' @ lib @ '' ''))
           [] (get_libraries cls BuildOption),
       passthough_parameters_args =
         foldl (\<lambda>acc passthough_arg. acc @ passthough_arg @ '' '')
           [] (get_passthough_args cls BuildOption),
       builder_name = name,
       sources_args = str_join '' '' sources,
       builder_output_dir = out_dir,
       target_file = os_path_join e out_dir [name @ get_shared_lib_ext e]\<rparr>)"

text \<open>
  \<^verbatim>\<open>format_build_command\<close>, with the arguments in the order of its parameter list.
  \<open>CHR 0x5C\<close> is the backslash.
\<close>

type_synonym args = string

definition format_build_command ::
  "env \<Rightarrow> string \<Rightarrow> string \<Rightarrow> args \<Rightarrow> args \<Rightarrow> args \<Rightarrow> args \<Rightarrow> args \<Rightarrow> args \<Rightarrow> args
     \<Rightarrow> string \<Rightarrow> string" where
  "format_build_command e compiler_arg sources inc_args def_args cfl_args ldf_args lib_args
       libdir_args passthougn_args target =
     (if IS_WINDOWS e then
        str_replace_char (CHR 0x5C) (CHR ''/'')
          (compiler_arg @ '' '' @ inc_args @ '' '' @ def_args @ '' '' @ cfl_args @ '' '' @
           sources @ '' '' @ passthougn_args @ '' /LD /Fe'' @ target @ '' /link '' @
           libdir_args @ '' '' @ lib_args @ '' '' @ ldf_args @ '' '')
      else
        compiler_arg @ '' '' @ sources @ '' '' @ def_args @ '' '' @ cfl_args @ '' '' @
        inc_args @ '' '' @ passthougn_args @ '' '' @ ldf_args @ '' '' @ lib_args @ '' '' @
        libdir_args @ '' -o '' @ target)"

definition get_command_line :: "env \<Rightarrow> CxxBuilder \<Rightarrow> string" where
  "get_command_line e self =
     format_build_command e (builder_compiler self) (sources_args self)
       (include_dirs_args self) (definations_args self) (cflags_args self)
       (ldflags_args self) (libraries_args self) (libraries_dirs_args self)
       (passthough_parameters_args self) (target_file self)"

definition get_target_file_path :: "CxxBuilder \<Rightarrow> string" where
  "get_target_file_path self = target_file self"

section \<open>The file system and the subprocess\<close>

text \<open>
  \<^verbatim>\<open>build()\<close> creates directories, runs the compiler and removes the scratch directory.
  The file system is a tree: a node is a regular file or a directory with named entries.
  A path string is resolved from the root of the tree component by component; empty
  components and \<^verbatim>\<open>.\<close> are skipped, as the kernel does (\<^verbatim>\<open>..\<close> and symbolic links
  are not interpreted). Every failing system call is the exception \<open>OSError\<close>, except in
  \<^verbatim>\<open>mkdir\<close>, where the source inspects \<^verbatim>\<open>errno\<close>.
\<close>

datatype node = File | Dir "(string \<times> node) list"

datatype errno = EEXIST | ENOTDIR

text \<open>\<open>split_on sep [] s\<close> cuts \<open>s\<close> at every \<open>sep\<close>.\<close>

fun split_on :: "char \<Rightarrow> string \<Rightarrow> string \<Rightarrow> string list" where
  "split_on sep acc [] = [acc]"
| "split_on sep acc (c # cs) =
     (if c = sep then acc # split_on sep [] cs else split_on sep (acc @ [c]) cs)"

definition path_components :: "string \<Rightarrow> string list" where
  "path_components p = filter (\<lambda>c. c \<noteq> [] \<and> c \<noteq> ''.'') (split_on (CHR ''/'') [] p)"

fun lookup :: "node \<Rightarrow> string list \<Rightarrow> node option" where
  "lookup n [] = Some n"
| "lookup File (c # cs) = None"
| "lookup (Dir es) (c # cs) = (case map_of es c of None \<Rightarrow> None | Some n \<Rightarrow> lookup n cs)"

text \<open>\<^verbatim>\<open>os.path.exists(p)\<close>; the empty path does not exist.\<close>

definition path_exists :: "node \<Rightarrow> string \<Rightarrow> bool" where
  "path_exists root p = (p \<noteq> [] \<and> lookup root (path_components p) \<noteq> None)"

definition is_dir :: "node \<Rightarrow> bool" where
  "is_dir n = (case n of File \<Rightarrow> False | Dir es \<Rightarrow> True)"

text \<open>
  \<^verbatim>\<open>Path(p).mkdir(parents=True, exist_ok=True)\<close>: missing directories along the path are
  created; a regular file in the way is \<open>ENOTDIR\<close>, a regular file at the path itself
  is \<open>EEXIST\<close>.
\<close>

fun mkdir_parents :: "string list \<Rightarrow> node \<Rightarrow> errno + node" where
  "mkdir_parents [] File = Inl EEXIST"
| "mkdir_parents [] (Dir es) = Inr (Dir es)"
| "mkdir_parents (c # cs) File = Inl ENOTDIR"
| "mkdir_parents (c # cs) (Dir es) =
     (case mkdir_parents cs (case map_of es c of None \<Rightarrow> Dir [] | Some n \<Rightarrow> n) of
        Inl err \<Rightarrow> Inl err
      | Inr n' \<Rightarrow> Inr (Dir (AList.update c n' es)))"

text \<open>
  \<^verbatim>\<open>os.remove\<close> (\<open>want_dir = False\<close>: the entry must be a regular file) and
  \<^verbatim>\<open>os.rmdir\<close> (\<open>want_dir = True\<close>: the entry must be an empty directory).
\<close>

fun unlink :: "bool \<Rightarrow> string list \<Rightarrow> node \<Rightarrow> node option" where
  "unlink want_dir [] n = None"
| "unlink want_dir (c # cs) File = None"
| "unlink want_dir [c] (Dir es) =
     (case map_of es c of
        None \<Rightarrow> None
      | Some n \<Rightarrow>
          if (if want_dir then n = Dir [] else n = File) then Some (Dir (AList.delete c es))
          else None)"
| "unlink want_dir (c # cs) (Dir es) =
     (case map_of es c of
        None \<Rightarrow> None
      | Some n \<Rightarrow>
          (case unlink want_dir cs n of
             None \<Rightarrow> None
           | Some n' \<Rightarrow> Some (Dir (AList.update c n' es))))"

definition os_remove :: "string \<Rightarrow> node \<Rightarrow> error + node" where
  "os_remove p root =
     (case unlink False (path_components p) root of None \<Rightarrow> Inl OSError | Some r \<Rightarrow> Inr r)"

definition os_rmdir :: "string \<Rightarrow> node \<Rightarrow> error + node" where
  "os_rmdir p root =
     (case unlink True (path_components p) root of None \<Rightarrow> Inl OSError | Some r \<Rightarrow> Inr r)"

text \<open>
  \<^verbatim>\<open>os.walk(top, topdown=False)\<close> on the tree below \<open>top_dir\<close>: the triples
  \<open>(root, dirs, files)\<close> of the directories below come first, then the one of
  \<open>top_dir\<close>.
  Nothing is produced for a path that is not a directory.
\<close>

fun walk :: "env \<Rightarrow> string \<Rightarrow> node \<Rightarrow> (string \<times> string list \<times> string list) list" where
  "walk e top_dir File = []"
| "walk e top_dir (Dir es) =
     concat (map (\<lambda>(name, n). walk e (os_path_join e top_dir [name]) n) es) @
     [(top_dir, map fst (filter (\<lambda>(name, n). is_dir n) es),
            map fst (filter (\<lambda>(name, n). \<not> is_dir n) es))]"

definition os_walk :: "env \<Rightarrow> string \<Rightarrow> node \<Rightarrow> (string \<times> string list \<times> string list) list" where
  "os_walk e top_dir root =
     (case lookup root (path_components top_dir) of
        None \<Rightarrow> []
      | Some n \<Rightarrow> walk e top_dir n)"

text \<open>
  \<^verbatim>\<open>_create_if_dir_not_exist\<close>: an \<^verbatim>\<open>OSError\<close> other than \<open>EEXIST\<close> becomes a
  \<^verbatim>\<open>RuntimeError\<close>, \<open>EEXIST\<close> is swallowed.
\<close>

definition create_if_dir_not_exist :: "string \<Rightarrow> node \<Rightarrow> error + node" where
  "create_if_dir_not_exist path_dir root =
     (if \<not> path_exists root path_dir then
        (case mkdir_parents (path_components path_dir) root of
           Inl err \<Rightarrow>
             if err \<noteq> EEXIST then Inl (RuntimeError (''Fail to create path '' @ path_dir))
             else Inr root
         | Inr root' \<Rightarrow> Inr root')
      else Inr root)"

text \<open>
  The loops of \<^verbatim>\<open>_remove_dir\<close>. A failing call raises out of the loops; the tree then
  stays as the calls before it left it, which is the second component of the results.
\<close>

fun remove_files :: "env \<Rightarrow> string \<Rightarrow> string list \<Rightarrow> node \<Rightarrow> error option \<times> node" where
  "remove_files e root_dir [] root = (None, root)"
| "remove_files e root_dir (name # names) root =
     (case os_remove (os_path_join e root_dir [name]) root of
        Inl err \<Rightarrow> (Some err, root)
      | Inr root' \<Rightarrow> remove_files e root_dir names root')"

fun remove_dirs :: "env \<Rightarrow> string \<Rightarrow> string list \<Rightarrow> node \<Rightarrow> error option \<times> node" where
  "remove_dirs e root_dir [] root = (None, root)"
| "remove_dirs e root_dir (name # names) root =
     (case os_rmdir (os_path_join e root_dir [name]) root of
        Inl err \<Rightarrow> (Some err, root)
      | Inr root' \<Rightarrow> remove_dirs e root_dir names root')"

fun remove_walk ::
  "env \<Rightarrow> (string \<times> string list \<times> string list) list \<Rightarrow> node \<Rightarrow> error option \<times> node" where
  "remove_walk e [] root = (None, root)"
| "remove_walk e ((root_dir, dirs, files) # rest) root =
     (case remove_files e root_dir files root of
        (Some err, root') \<Rightarrow> (Some err, root')
      | (None, root') \<Rightarrow>
          (case remove_dirs e root_dir dirs root' of
             (Some err, root'') \<Rightarrow> (Some err, root'')
           | (None, root'') \<Rightarrow> remove_walk e rest root''))"

definition remove_dir :: "env \<Rightarrow> string \<Rightarrow> node \<Rightarrow> error option \<times> node" where
  "remove_dir e path_dir root =
     (if path_exists root path_dir then
        (case remove_walk e (os_walk e path_dir root) root of
           (Some err, root') \<Rightarrow> (Some err, root')
         | (None, root') \<Rightarrow>
             (case os_rmdir path_dir root' of
                Inl err \<Rightarrow> (Some err, root')
              | Inr root'' \<Rightarrow> (None, root'')))
      else (None, root))"

text \<open>
  What the Python runtime and the operating system do for \<^verbatim>\<open>run_command_line\<close>:
  \<^item> \<open>shlex_split\<close>: \<^verbatim>\<open>shlex.split\<close>, \<open>None\<close> when it raises \<^verbatim>\<open>ValueError\<close>;
  \<^item> \<open>spawn cmd cwd root\<close>: the child process run by \<^verbatim>\<open>subprocess.check_output\<close> with
    \<^verbatim>\<open>stderr=STDOUT\<close>: it exits with a return code and the captured bytes of both streams,
    or cannot be started (\<open>SpawnFailed\<close>), and leaves a file system behind;
  \<^item> \<open>decode_utf8\<close>: \<^verbatim>\<open>bytes.decode("utf-8")\<close>, \<open>None\<close> when the bytes are not UTF-8.
  Captured bytes and decoded text are both \<open>string\<close>.
\<close>

datatype proc = Exited int string | SpawnFailed

record runtime =
  shlex_split :: "string \<Rightarrow> string list option"
  spawn :: "string list \<Rightarrow> string \<Rightarrow> node \<Rightarrow> proc \<times> node"
  decode_utf8 :: "string \<Rightarrow> string option"

text \<open>The values \<^verbatim>\<open>build()\<close> can return as its first component.\<close>

datatype pyval = PyInt int | PyBytes string

definition openmp_instruction :: string where
  "openmp_instruction =
     [CHR 0x0A, CHR 0x0A] @
     ''OpenMP support not found. Please try one of the following solutions:'' @ [CHR 0x0A] @
     ''(1) Set the `CXX` environment variable to a compiler other than Apple clang++/g++ '' @
     ''that has builtin OpenMP support;'' @ [CHR 0x0A] @
     ''(2) install OpenMP via conda: `conda install llvm-openmp`;'' @ [CHR 0x0A] @
     ''(3) install libomp via brew: `brew install libomp`;'' @ [CHR 0x0A] @
     ''(4) manually setup OpenMP and set the `OMP_PREFIX` environment variable to point to a path'' @
     '' with `include/omp.h` under it.''"

definition omp_h_not_found :: string where
  "omp_h_not_found = [CHR 0x27] @ ''omp.h'' @ [CHR 0x27] @ '' file not found''"

text \<open>
  \<^verbatim>\<open>run_command_line(cmd_line, cwd)\<close>: the result, or the exception raised, and the file
  system the child process left.
\<close>

definition run_command_line ::
  "env \<Rightarrow> runtime \<Rightarrow> string \<Rightarrow> string \<Rightarrow> node \<Rightarrow> (error + pyval) \<times> node" where
  "run_command_line e rt cmd_line cwd root =
     (case shlex_split rt cmd_line of
        None \<Rightarrow> (Inl ValueError, root)
      | Some cmd \<Rightarrow>
          (case spawn rt cmd cwd root of
             (SpawnFailed, root') \<Rightarrow> (Inl OSError, root')
           | (Exited returncode captured, root') \<Rightarrow>
               if returncode = 0 then (Inr (PyBytes captured), root')
               else
                 (case decode_utf8 rt captured of
                    None \<Rightarrow> (Inl UnicodeDecodeError, root')
                  | Some output \<Rightarrow>
                      (let openmp_problem =
                             (str_in omp_h_not_found output \<or> str_in ''libomp'' output);
                           output = (if openmp_problem \<and> sys_platform e = ''darwin''
                                     then output @ openmp_instruction else output)
                       in (Inl (CppCompileError cmd output), root')))))"

text \<open>
  \<^verbatim>\<open>CxxBuilder.build()\<close>. The state is the file system and what was printed. The result
  is the returned pair \<^verbatim>\<open>(status, self._target_file)\<close> or the exception that left
  \<^verbatim>\<open>build\<close>.
\<close>

record world =
  fs :: node
  stdout :: "string list"

definition build ::
  "env \<Rightarrow> runtime \<Rightarrow> CxxBuilder \<Rightarrow> world \<Rightarrow> (error + pyval \<times> string) \<times> world" where
  "build e rt self w =
     (case create_if_dir_not_exist (builder_output_dir self) (fs w) of
        Inl err \<Rightarrow> (Inl err, w)
      | Inr root1 \<Rightarrow>
          (let build_tmp_dir =
                 os_path_join e (builder_output_dir self)
                   [builder_name self @ ''_'' @ BUILD_TEMP_DIR]
           in case create_if_dir_not_exist build_tmp_dir root1 of
                Inl err \<Rightarrow> (Inl err, w\<lparr>fs := root1\<rparr>)
              | Inr root2 \<Rightarrow>
                  (let build_cmd = get_command_line e self;
                       out = stdout w @ [''!!! build_cmd:  '' @ build_cmd]
                   in case run_command_line e rt build_cmd build_tmp_dir root2 of
                        (Inl err, root3) \<Rightarrow> (Inl err, \<lparr>fs = root3, stdout = out\<rparr>)
                      | (Inr status, root3) \<Rightarrow>
                          (case remove_dir e build_tmp_dir root3 of
                             (Some err, root4) \<Rightarrow> (Inl err, \<lparr>fs = root4, stdout = out\<rparr>)
                           | (None, root4) \<Rightarrow>
                               (Inr (status, target_file self),
                                \<lparr>fs = root4, stdout = out\<rparr>)))))"

section \<open>Concrete environments\<close>

text \<open>
  A Linux host with \<^verbatim>\<open>g++\<close>, release settings and no CUDA compiler on the path; the
  same host reporting \<^verbatim>\<open>win32\<close> and \<^verbatim>\<open>darwin\<close>; and a host whose compiler is
  \<^verbatim>\<open>clang++\<close>.
\<close>

definition linux_env :: env where
  "linux_env =
     \<lparr>sys_platform = ''linux'',
      platform_machine = ''x86_64'',
      os_uname_machine = ''x86_64'',
      os_environ = Map.empty,
      os_path_exists = (\<lambda>p. False),
      ntpath_join = (\<lambda>a p. foldl (\<lambda>x y. x @ [CHR 0x5C] @ y) a p),
      config_is_fbcode = False,
      config_aot_inductor_debug_compile = False,
      config_cpp_enable_unsafe_math_opt_flag = False,
      config_cuda_cuda_cxx = None,
      config_cuda_cutlass_dir = ''/cutlass'',
      config_cuda_enable_cuda_lto = False,
      config_cuda_compile_opt_level = ''-O1'',
      config_cuda_enable_debug_info = False,
      config_cuda_enable_ptxas_info = False,
      config_cuda_use_fast_math = False,
      codecache_cpp_compiler = ''g++'',
      codecache_chosen_isa_str = ''avx2'',
      codecache_chosen_isa_build_arch_flags = ''-mavx2 -mfma'',
      codecache_is_conda_llvm_openmp_installed = False,
      codecache_homebrew_libomp = (False, []),
      apple_clang = (\<lambda>c. False),
      torch_GLIBCXX_USE_CXX11_ABI = True,
      torch_TORCH_PATH = ''/torch'',
      torch_TORCH_LIB_PATH = ''/torch/lib'',
      sysconfig_include_path = Some ''/usr/include/python3.11'',
      sysconfig_LIBDIR = ''/usr/lib'',
      sys_executable_dirname = ''/usr/bin'',
      cuda_env_nvcc_exist = (\<lambda>p. False),
      cuda_env_get_cuda_arch = ''80'',
      cpp_extension_join_cuda_home = (\<lambda>p. Some (posixpath_join ''/usr/local/cuda'' p))\<rparr>"

definition windows_env :: env where
  "windows_env = linux_env\<lparr>sys_platform := ''win32''\<rparr>"

definition darwin_env :: env where
  "darwin_env = linux_env\<lparr>sys_platform := ''darwin''\<rparr>"

definition linux_clang_env :: env where
  "linux_clang_env = linux_env\<lparr>codecache_cpp_compiler := ''clang++''\<rparr>"

text \<open>
  A builder for \<^verbatim>\<open>a.cpp\<close> with the options of a fresh \<^verbatim>\<open>CxxOptions()\<close>, writing to
  \<^verbatim>\<open>out\<close>; a runtime that cuts the command line at blanks and whose compiler fails
  with exit status 1, and one whose compiler succeeds and prints a warning. Neither
  compiler touches the file system.
\<close>

definition demo_builder :: CxxBuilder where
  "demo_builder =
     CxxBuilder_init linux_env ''/torch/_inductor/cxx_builder'' ''libfoo'' [''a.cpp'']
       (snd (CxxOptions_init linux_env BuildOptionsBase))
       (fst (CxxOptions_init linux_env BuildOptionsBase)) (Some ''out'')"

definition failing_runtime :: runtime where
  "failing_runtime =
     \<lparr>shlex_split = (\<lambda>s. Some (filter (\<lambda>w. w \<noteq> []) (split_on (CHR '' '') [] s))),
      spawn = (\<lambda>cmd cwd root. (Exited 1 ''a.cpp:1:1: error: expected declaration'', root)),
      decode_utf8 = (\<lambda>b. Some b)\<rparr>"

definition succeeding_runtime :: runtime where
  "succeeding_runtime =
     \<lparr>shlex_split = (\<lambda>s. Some (filter (\<lambda>w. w \<noteq> []) (split_on (CHR '' '') [] s))),
      spawn = (\<lambda>cmd cwd root. (Exited 0 ''a.cpp:3:7: warning: unused variable'', root)),
      decode_utf8 = (\<lambda>b. Some b)\<rparr>"

definition empty_world :: world where
  "empty_world = \<lparr>fs = Dir [], stdout = []\<rparr>"

text \<open>
  A builder on Windows with the options of a fresh \<^verbatim>\<open>CxxTorchOptions()\<close>.
\<close>

definition windows_builder :: CxxBuilder where
  "windows_builder =
     CxxBuilder_init windows_env ''/torch/_inductor/cxx_builder'' ''libfoo'' [''a.cpp'']
       (snd (CxxTorchOptions_init windows_env BuildOptionsBase))
       (fst (CxxTorchOptions_init windows_env BuildOptionsBase)) (Some ''out'')"

text \<open>
  A runtime on macOS whose compiler fails because the OpenMP runtime library is missing.
\<close>

definition omp_failing_runtime :: runtime where
  "omp_failing_runtime =
     failing_runtime
       \<lparr>spawn := (\<lambda>cmd cwd root. (Exited 1 ''dyld: Library not loaded: libomp.dylib'', root))\<rparr>"

text \<open>A Linux host on which no CUDA install root is found.\<close>

definition no_cuda_home_env :: env where
  "no_cuda_home_env = linux_env\<lparr>cpp_extension_join_cuda_home := (\<lambda>p. None)\<rparr>"

text \<open>
  Strict UTF-8 decoding of a byte string, as \<^verbatim>\<open>bytes.decode("utf-8")\<close> does it, for a
  text that is kept as its UTF-8 bytes: the bytes are returned when they are well formed
  (no stray or missing continuation byte, no overlong form, no surrogate, nothing above
  U+10FFFF), and decoding fails otherwise. The state of \<open>utf8_step\<close> is the number of
  continuation bytes still due and the bounds of the next one.
\<close>

definition utf8_step :: "nat \<times> nat \<times> nat \<Rightarrow> nat \<Rightarrow> (nat \<times> nat \<times> nat) option" where
  "utf8_step s b =
     (case s of (due, lo, hi) \<Rightarrow>
        if due = 0 then
          (if b < 0x80 then Some (0, 0x80, 0xBF)
           else if 0xC2 \<le> b \<and> b \<le> 0xDF then Some (1, 0x80, 0xBF)
           else if b = 0xE0 then Some (2, 0xA0, 0xBF)
           else if b = 0xED then Some (2, 0x80, 0x9F)
           else if 0xE1 \<le> b \<and> b \<le> 0xEF then Some (2, 0x80, 0xBF)
           else if b = 0xF0 then Some (3, 0x90, 0xBF)
           else if 0xF1 \<le> b \<and> b \<le> 0xF3 then Some (3, 0x80, 0xBF)
           else if b = 0xF4 then Some (3, 0x80, 0x8F)
           else None)
        else if lo \<le> b \<and> b \<le> hi then Some (due - 1, 0x80, 0xBF)
        else None)"

fun utf8_run :: "nat \<times> nat \<times> nat \<Rightarrow> nat list \<Rightarrow> bool" where
  "utf8_run s [] = (fst s = 0)"
| "utf8_run s (b # bs) = (case utf8_step s b of None \<Rightarrow> False | Some s' \<Rightarrow> utf8_run s' bs)"

definition utf8_decode :: "string \<Rightarrow> string option" where
  "utf8_decode bytes =
     (if utf8_run (0, 0x80, 0xBF) (map of_char bytes) then Some bytes else None)"

text \<open>
  A runtime whose compiler fails and names a header file whose name is encoded in
  Latin-1: the byte \<open>0xE9\<close> is followed by \<^verbatim>\<open>.\<close>, which is not a continuation byte.
\<close>

definition latin1_output :: string where
  "latin1_output = ''a.cpp:1:10: fatal error: caf'' @ [CHR 0xE9] @ ''.h: No such file or directory''"

definition undecodable_runtime :: runtime where
  "undecodable_runtime =
     \<lparr>shlex_split = (\<lambda>s. Some (filter (\<lambda>w. w \<noteq> []) (split_on (CHR '' '') [] s))),
      spawn = (\<lambda>cmd cwd root. (Exited 1 latin1_output, root)),
      decode_utf8 = utf8_decode\<rparr>"

section \<open>The constructors without their local variables\<close>

lemma CxxOptions_init_fst: "fst (CxxOptions_init e cls) = \<lparr>compiler = get_cxx_compiler e\<rparr>"
  by (simp add: CxxOptions_init_def Let_def)

lemma CxxOptions_init_unfold:
  "CxxOptions_init e cls =
     (\<lparr>compiler = get_cxx_compiler e\<rparr>,
      append_cflags (get_linux_cpp_cflags e (get_cxx_compiler e))
        (append_cflags (get_cxx_std e ''c++17'')
          (append_cflags (get_warning_all_flag e False)
            (append_cflags (optimization_cflags e)
              (append_cflags (get_shared_cflag e) cls)))))"
  by (simp add: CxxOptions_init_def Let_def)

lemma CxxTorchOptions_init_unfold:
  "CxxTorchOptions_init e cls =
     (\<lparr>compiler = get_cxx_compiler e\<rparr>,
      (if \<not> IS_WINDOWS e
       then (\<lambda>c. append_passthough_args (use_fb_internal_macros e)
                   (append_passthough_args (get_glibcxx_abi_build_flags e) c))
       else (\<lambda>c. c))
      (append_libraries (snd (snd (snd (snd (get_openmp_args e (get_cxx_compiler e))))))
        (append_libraries_dirs
           (fst (snd (snd (snd (get_openmp_args e (get_cxx_compiler e))))))
          (append_include_dirs (fst (snd (snd (get_openmp_args e (get_cxx_compiler e)))))
            (append_ldflags (fst (snd (get_openmp_args e (get_cxx_compiler e))))
              (append_cflags (fst (get_openmp_args e (get_cxx_compiler e)))
                (append_libraries_dirs (snd (get_python_related_args e))
                  (append_include_dirs (fst (get_python_related_args e))
                    (append_libraries (snd (snd (get_torch_related_args e)))
                      (append_libraries_dirs (fst (snd (get_torch_related_args e)))
                        (append_include_dirs (fst (get_torch_related_args e))
                          (append_passthough_args (snd (get_build_args_of_chosen_isa e))
                            (append_definations (fst (get_build_args_of_chosen_isa e))
                              (append_cflags (use_standard_sys_dir_headers e)
                                (append_definations use_custom_generated_macros
                                  (append_definations get_torch_cpp_wrapper_defination
                                    (snd (CxxOptions_init e cls))))))))))))))))))"
  by (simp add: CxxTorchOptions_init_def Let_def case_prod_beta CxxOptions_init_fst)

lemmas store_defs =
  BuildOptionsBase_def append_definations_def append_include_dirs_def append_cflags_def
  append_ldflags_def append_libraries_dirs_def append_libraries_def
  append_passthough_args_def get_compiler_def get_definations_def get_include_dirs_def
  get_cflags_def get_ldflags_def get_libraries_dirs_def get_libraries_def
  get_passthough_args_def

section \<open>Evaluation on the concrete environments\<close>

lemma linux_flag_values:
  "get_cxx_compiler linux_env = ''g++''"
  "get_shared_cflag linux_env = [''shared'', ''fPIC'']"
  "optimization_cflags linux_env =
     [''O3'', ''DNDEBUG'', ''ffast-math'', ''fno-finite-math-only'',
      ''fno-unsafe-math-optimizations'', ''march=native'']"
  "get_warning_all_flag linux_env False = []"
  "get_cxx_std linux_env ''c++17'' = [''std=c++17'']"
  "get_linux_cpp_cflags linux_env ''g++'' = [''Wno-unused-variable'', ''Wno-unknown-pragmas'']"
  "get_torch_cpp_wrapper_defination = [''TORCH_INDUCTOR_CPP_WRAPPER'']"
  "use_custom_generated_macros = ['' C10_USING_CUSTOM_GENERATED_MACROS'']"
  "use_standard_sys_dir_headers linux_env = []"
  "get_build_args_of_chosen_isa linux_env =
     ([''CPU_CAPABILITY=AVX2'', ''CPU_CAPABILITY_AVX2'', ''HAVE_AVX2_CPU_DEFINITION''],
      [''-mavx2 -mfma''])"
  "get_torch_related_args linux_env =
     ([''/torch/include'', ''/torch/include/torch/csrc/api/include'', ''/torch/include/TH'',
       ''/torch/include/THC''],
      [''/torch/lib''], [''torch'', ''torch_cpu'', ''c10''])"
  "get_python_related_args linux_env = ([''/usr/include/python3.11''], [''/usr/lib''])"
  "get_openmp_args linux_env ''g++'' = ([''fopenmp''], [], [], [], [''gomp''])"
  "IS_WINDOWS linux_env = False"
  "IS_LINUX linux_env = True"
  "get_glibcxx_abi_build_flags linux_env = [''-D_GLIBCXX_USE_CXX11_ABI=1'']"
  "use_fb_internal_macros linux_env = []"
  by code_simp+

lemma linux_CxxOptions:
  "CxxOptions_init linux_env BuildOptionsBase =
     (\<lparr>compiler = ''g++''\<rparr>,
      \<lparr>definations = [], include_dirs = [],
       cflags = [''shared'', ''fPIC'', ''O3'', ''DNDEBUG'', ''ffast-math'',
          ''fno-finite-math-only'', ''fno-unsafe-math-optimizations'', ''march=native'',
          ''std=c++17'', ''Wno-unused-variable'', ''Wno-unknown-pragmas''],
       ldflags = [], libraries_dirs = [], libraries = [], passthough_args = []\<rparr>)"
  by (simp add: CxxOptions_init_unfold linux_flag_values store_defs)

lemma linux_CxxTorchOptions_after_CxxOptions:
  "CxxTorchOptions_init linux_env (snd (CxxOptions_init linux_env BuildOptionsBase)) =
     (\<lparr>compiler = ''g++''\<rparr>,
      \<lparr>definations = [''TORCH_INDUCTOR_CPP_WRAPPER'', '' C10_USING_CUSTOM_GENERATED_MACROS'',
          ''CPU_CAPABILITY=AVX2'', ''CPU_CAPABILITY_AVX2'', ''HAVE_AVX2_CPU_DEFINITION''],
       include_dirs = [''/torch/include'', ''/torch/include/torch/csrc/api/include'',
          ''/torch/include/TH'', ''/torch/include/THC'', ''/usr/include/python3.11''],
       cflags = [''shared'', ''fPIC'', ''O3'', ''DNDEBUG'', ''ffast-math'',
          ''fno-finite-math-only'', ''fno-unsafe-math-optimizations'', ''march=native'',
          ''std=c++17'', ''Wno-unused-variable'', ''Wno-unknown-pragmas'', ''fopenmp''],
       ldflags = [], libraries_dirs = [''/torch/lib'', ''/usr/lib''],
       libraries = [''torch'', ''torch_cpu'', ''c10'', ''gomp''],
       passthough_args = [''-mavx2 -mfma'', ''-D_GLIBCXX_USE_CXX11_ABI=1'']\<rparr>)"
  by (simp add: CxxTorchOptions_init_unfold CxxOptions_init_unfold linux_flag_values store_defs)

section \<open>Properties of \<open>nonduplicate_append\<close>\<close>

lemma set_nonduplicate_append:
  "set (nonduplicate_append dest src) = set dest \<union> set src"
  by (induction src arbitrary: dest) auto

lemma distinct_nonduplicate_append:
  "distinct dest \<Longrightarrow> distinct (nonduplicate_append dest src)"
  by (induction src arbitrary: dest) auto

lemma nonduplicate_append_absorb:
  "set src \<subseteq> set dest \<Longrightarrow> nonduplicate_append dest src = dest"
  by (induction src arbitrary: dest) auto

lemma nonduplicate_append_append:
  "nonduplicate_append dest (xs @ ys) = nonduplicate_append (nonduplicate_append dest xs) ys"
  by (induction xs arbitrary: dest) auto

lemma prefix_nonduplicate_append: "prefix dest (nonduplicate_append dest src)"
proof (induction src arbitrary: dest)
  case Nil
  show ?case by simp
next
  case (Cons item src)
  let ?d = "if item \<notin> set dest then dest @ [item] else dest"
  have "prefix dest ?d" by simp
  also have "prefix ?d (nonduplicate_append ?d src)" by (rule Cons.IH)
  finally show ?case by simp
qed

text \<open>
  \<open>rev (remdups (rev xs))\<close> keeps the first occurrence of every element of \<open>xs\<close>, in the
  order of \<open>xs\<close> (\<open>remdups\<close> keeps the last one).
\<close>

lemma keep_first_Cons:
  "rev (remdups (rev (x # xs))) = x # rev (remdups (rev [y \<leftarrow> xs. y \<noteq> x]))"
proof -
  have "remdups (ys @ [x]) = remdups [y \<leftarrow> ys. y \<noteq> x] @ [x]" for ys
    by (induction ys) auto
  from this [of "rev xs"] show ?thesis by (simp add: rev_filter)
qed

lemma nonduplicate_append_first_occurrence:
  "nonduplicate_append dest src = dest @ rev (remdups (rev [x \<leftarrow> src. x \<notin> set dest]))"
proof (induction src arbitrary: dest)
  case Nil
  show ?case by simp
next
  case (Cons item src)
  show ?case
  proof (cases "item \<in> set dest")
    case True
    then show ?thesis using Cons.IH [of dest] by simp
  next
    case False
    have eq: "[x \<leftarrow> src. x \<notin> set (dest @ [item])] =
              [y \<leftarrow> [x \<leftarrow> src. x \<notin> set dest]. y \<noteq> item]"
      by (induction src) auto
    have "nonduplicate_append dest (item # src) = nonduplicate_append (dest @ [item]) src"
      using False by simp
    also have "\<dots> = (dest @ [item]) @
                     rev (remdups (rev [x \<leftarrow> src. x \<notin> set (dest @ [item])]))"
      by (rule Cons.IH)
    also have "\<dots> = dest @ rev (remdups (rev (item # [x \<leftarrow> src. x \<notin> set dest])))"
      unfolding eq keep_first_Cons by simp
    also have "\<dots> = dest @ rev (remdups (rev [x \<leftarrow> item # src. x \<notin> set dest]))"
      using False by simp
    finally show ?thesis .
  qed
qed

section \<open>Every constructor appends lists that depend on the environment only\<close>

lemma append_all_twice: "append_all src (append_all src cls) = append_all src cls"
  by (simp add: append_all_def nonduplicate_append_absorb set_nonduplicate_append)

lemma append_all_no_duplicates:
  "no_duplicates cls \<Longrightarrow> no_duplicates (append_all src cls)"
  by (simp add: append_all_def no_duplicates_def distinct_nonduplicate_append)

lemma append_all_extends: "extends cls (append_all src cls)"
  by (simp add: append_all_def extends_def prefix_nonduplicate_append)

lemma is_appender_twice: "is_appender f \<Longrightarrow> f (f cls) = f cls"
  unfolding is_appender_def using append_all_twice by auto

lemma is_appender_no_duplicates:
  "is_appender f \<Longrightarrow> no_duplicates cls \<Longrightarrow> no_duplicates (f cls)"
  unfolding is_appender_def using append_all_no_duplicates by auto

lemma is_appender_extends: "is_appender f \<Longrightarrow> extends cls (f cls)"
  unfolding is_appender_def using append_all_extends by auto

lemma is_appender_id: "is_appender (\<lambda>cls. cls)"
  unfolding is_appender_def
  by (rule exI [of _ BuildOptionsBase]) (simp add: append_all_def BuildOptionsBase_def)

lemma is_appender_comp:
  assumes "is_appender f" and "is_appender g"
  shows "is_appender (\<lambda>cls. g (f cls))"
proof -
  from assms obtain s t where f: "\<And>cls. f cls = append_all s cls"
    and g: "\<And>cls. g cls = append_all t cls"
    unfolding is_appender_def by blast
  let ?u = "\<lparr>definations = definations s @ definations t,
             include_dirs = include_dirs s @ include_dirs t,
             cflags = cflags s @ cflags t,
             ldflags = ldflags s @ ldflags t,
             libraries_dirs = libraries_dirs s @ libraries_dirs t,
             libraries = libraries s @ libraries t,
             passthough_args = passthough_args s @ passthough_args t\<rparr>"
  have "\<forall>cls. g (f cls) = append_all ?u cls"
    by (simp add: f g append_all_def nonduplicate_append_append)
  then show ?thesis unfolding is_appender_def by blast
qed

lemma is_appender_steps:
  "is_appender (append_definations src)"
  "is_appender (append_include_dirs src)"
  "is_appender (append_cflags src)"
  "is_appender (append_ldflags src)"
  "is_appender (append_libraries_dirs src)"
  "is_appender (append_libraries src)"
  "is_appender (append_passthough_args src)"
  unfolding is_appender_def
  subgoal
    by (rule exI [of _ "BuildOptionsBase\<lparr>definations := src\<rparr>"])
       (simp add: append_all_def BuildOptionsBase_def append_definations_def)
  subgoal
    by (rule exI [of _ "BuildOptionsBase\<lparr>include_dirs := src\<rparr>"])
       (simp add: append_all_def BuildOptionsBase_def append_include_dirs_def)
  subgoal
    by (rule exI [of _ "BuildOptionsBase\<lparr>cflags := src\<rparr>"])
       (simp add: append_all_def BuildOptionsBase_def append_cflags_def)
  subgoal
    by (rule exI [of _ "BuildOptionsBase\<lparr>ldflags := src\<rparr>"])
       (simp add: append_all_def BuildOptionsBase_def append_ldflags_def)
  subgoal
    by (rule exI [of _ "BuildOptionsBase\<lparr>libraries_dirs := src\<rparr>"])
       (simp add: append_all_def BuildOptionsBase_def append_libraries_dirs_def)
  subgoal
    by (rule exI [of _ "BuildOptionsBase\<lparr>libraries := src\<rparr>"])
       (simp add: append_all_def BuildOptionsBase_def append_libraries_def)
  subgoal
    by (rule exI [of _ "BuildOptionsBase\<lparr>passthough_args := src\<rparr>"])
       (simp add: append_all_def BuildOptionsBase_def append_passthough_args_def)
  done

lemma is_appender_step_after:
  assumes "is_appender f"
  shows "is_appender (\<lambda>cls. append_definations src (f cls))"
    and "is_appender (\<lambda>cls. append_include_dirs src (f cls))"
    and "is_appender (\<lambda>cls. append_cflags src (f cls))"
    and "is_appender (\<lambda>cls. append_ldflags src (f cls))"
    and "is_appender (\<lambda>cls. append_libraries_dirs src (f cls))"
    and "is_appender (\<lambda>cls. append_libraries src (f cls))"
    and "is_appender (\<lambda>cls. append_passthough_args src (f cls))"
  using is_appender_comp [OF assms is_appender_steps(1)]
    is_appender_comp [OF assms is_appender_steps(2)]
    is_appender_comp [OF assms is_appender_steps(3)]
    is_appender_comp [OF assms is_appender_steps(4)]
    is_appender_comp [OF assms is_appender_steps(5)]
    is_appender_comp [OF assms is_appender_steps(6)]
    is_appender_comp [OF assms is_appender_steps(7)]
  by blast+

lemma CxxOptions_init_appender: "is_appender (\<lambda>cls. snd (CxxOptions_init e cls))"
  unfolding CxxOptions_init_def Let_def snd_conv
  by (intro is_appender_step_after is_appender_id)

lemma CxxTorchOptions_init_fst:
  "fst (CxxTorchOptions_init e cls) = \<lparr>compiler = get_cxx_compiler e\<rparr>"
  by (simp add: CxxTorchOptions_init_def Let_def case_prod_beta CxxOptions_init_fst)

lemma CxxTorchOptions_init_appender: "is_appender (\<lambda>cls. snd (CxxTorchOptions_init e cls))"
proof (cases "IS_WINDOWS e")
  case True
  then show ?thesis
    unfolding CxxTorchOptions_init_def Let_def case_prod_beta snd_conv CxxOptions_init_fst
    by (simp only: not_True_eq_False if_False)
       (intro is_appender_step_after CxxOptions_init_appender)
next
  case False
  then show ?thesis
    unfolding CxxTorchOptions_init_def Let_def case_prod_beta snd_conv CxxOptions_init_fst
    by (simp only: not_False_eq_True if_True)
       (intro is_appender_step_after CxxOptions_init_appender)
qed

text \<open>
  \<^verbatim>\<open>CxxTorchCudaOptions()\<close> raises what \<^verbatim>\<open>get_torch_cuda_args\<close> raises and returns an
  instance with the CUDA compiler otherwise.
\<close>

lemma IS_LINUX_not_WINDOWS: "IS_LINUX e \<Longrightarrow> \<not> IS_WINDOWS e"
  by (auto simp: IS_LINUX_def IS_WINDOWS_def)

lemma IS_LINUX_not_MACOS: "IS_LINUX e \<Longrightarrow> \<not> IS_MACOS e"
  by (auto simp: IS_LINUX_def IS_MACOS_def prefix_def)

lemma get_torch_cuda_args_not_linux:
  "\<not> IS_LINUX e \<Longrightarrow>
   get_torch_cuda_args e = Inl (NotImplementedError unsupported_env_message)"
  by (simp add: get_torch_cuda_args_def Let_def)

lemma get_torch_cuda_args_Inr_linux: "get_torch_cuda_args e = Inr a \<Longrightarrow> IS_LINUX e"
  using get_torch_cuda_args_not_linux [of e] by (cases "IS_LINUX e") auto

lemma get_nvcc_compiler_options_cases:
  "(\<not> IS_WINDOWS e \<and> (\<exists>a. get_nvcc_compiler_options e = Inr a)) \<or>
   (IS_WINDOWS e \<and>
    get_nvcc_compiler_options e = Inl (NotImplementedError unsupported_env_message))"
  by (simp add: get_nvcc_compiler_options_def Let_def case_prod_beta)

lemma CxxTorchCudaOptions_init_fst:
  "fst (CxxTorchCudaOptions_init e cls) =
     (case get_torch_cuda_args e of
        Inl err \<Rightarrow> Inl err
      | Inr args \<Rightarrow>
          Inr (case cuda_compiler e of
                 None \<Rightarrow> \<lparr>compiler = get_cxx_compiler e\<rparr>
               | Some c \<Rightarrow> \<lparr>compiler = c\<rparr>))"
proof (cases "get_torch_cuda_args e")
  case (Inl err)
  then show ?thesis
    by (simp add: CxxTorchCudaOptions_init_def Let_def case_prod_beta)
next
  case (Inr a)
  then have "IS_LINUX e" by (rule get_torch_cuda_args_Inr_linux)
  with get_nvcc_compiler_options_cases [of e] IS_LINUX_not_WINDOWS [of e]
  obtain b where b: "get_nvcc_compiler_options e = Inr b" by blast
  show ?thesis
    by (cases "cuda_compiler e")
       (simp_all add: CxxTorchCudaOptions_init_def Let_def case_prod_beta Inr b
          CxxTorchOptions_init_fst)
qed

lemma CxxTorchCudaOptions_init_appender:
  "is_appender (\<lambda>cls. snd (CxxTorchCudaOptions_init e cls))"
proof (cases "get_torch_cuda_args e")
  case (Inl err)
  then show ?thesis
    unfolding CxxTorchCudaOptions_init_def Let_def case_prod_beta
    by (simp add: CxxTorchOptions_init_appender)
next
  case a: (Inr a)
  show ?thesis
  proof (cases "get_nvcc_compiler_options e")
    case (Inl err)
    with a show ?thesis
      unfolding CxxTorchCudaOptions_init_def Let_def case_prod_beta
      by (simp add: is_appender_step_after CxxTorchOptions_init_appender)
  next
    case (Inr b)
    with a show ?thesis
      unfolding CxxTorchCudaOptions_init_def Let_def case_prod_beta
      by (simp add: is_appender_step_after CxxTorchOptions_init_appender)
  qed
qed

lemma CxxOptions_init_twice:
  "CxxOptions_init e (snd (CxxOptions_init e cls)) = CxxOptions_init e cls"
  by (rule prod_eqI)
     (simp_all add: CxxOptions_init_fst is_appender_twice [OF CxxOptions_init_appender])

lemma CxxTorchOptions_init_twice:
  "CxxTorchOptions_init e (snd (CxxTorchOptions_init e cls)) = CxxTorchOptions_init e cls"
  by (rule prod_eqI)
     (simp_all add: CxxTorchOptions_init_fst
        is_appender_twice [OF CxxTorchOptions_init_appender])

lemma CxxTorchCudaOptions_init_twice:
  "CxxTorchCudaOptions_init e (snd (CxxTorchCudaOptions_init e cls)) =
     CxxTorchCudaOptions_init e cls"
  by (rule prod_eqI)
     (simp_all add: CxxTorchCudaOptions_init_fst
        is_appender_twice [OF CxxTorchCudaOptions_init_appender])

section \<open>Claims about the option classes\<close>

text \<open>
  C1. Constructing the same options class a second time, in the same environment, has
  the outcome of the first construction (the same instance, or the same exception for
  \<^verbatim>\<open>CxxTorchCudaOptions\<close> off Linux) and leaves the seven lists exactly as the first
  construction left them. When the lists were free of duplicates before (they are empty
  when the module is imported), they are free of duplicates afterwards. Entries are only
  added at the end, so what was in a list keeps its place, and \<open>nonduplicate_append\<close>
  adds the new items of the source in the order of their first occurrence.
\<close>

theorem options_deterministic_no_duplicates:
  assumes "no_duplicates cls"
  shows "CxxOptions_init e (snd (CxxOptions_init e cls)) = CxxOptions_init e cls \<and>
         CxxTorchOptions_init e (snd (CxxTorchOptions_init e cls)) =
           CxxTorchOptions_init e cls \<and>
         CxxTorchCudaOptions_init e (snd (CxxTorchCudaOptions_init e cls)) =
           CxxTorchCudaOptions_init e cls \<and>
         no_duplicates (snd (CxxOptions_init e cls)) \<and>
         no_duplicates (snd (CxxTorchOptions_init e cls)) \<and>
         no_duplicates (snd (CxxTorchCudaOptions_init e cls)) \<and>
         extends cls (snd (CxxOptions_init e cls)) \<and>
         extends cls (snd (CxxTorchOptions_init e cls)) \<and>
         extends cls (snd (CxxTorchCudaOptions_init e cls)) \<and>
         nonduplicate_append dest src =
           dest @ rev (remdups (rev [x \<leftarrow> src. x \<notin> set dest]))"
proof -
  note twice = CxxOptions_init_twice CxxTorchOptions_init_twice CxxTorchCudaOptions_init_twice
  have "no_duplicates (snd (CxxOptions_init e cls))"
    using is_appender_no_duplicates [OF CxxOptions_init_appender assms] .
  moreover have "no_duplicates (snd (CxxTorchOptions_init e cls))"
    using is_appender_no_duplicates [OF CxxTorchOptions_init_appender assms] .
  moreover have "no_duplicates (snd (CxxTorchCudaOptions_init e cls))"
    using is_appender_no_duplicates [OF CxxTorchCudaOptions_init_appender assms] .
  moreover have "extends cls (snd (CxxOptions_init e cls))"
    using is_appender_extends [OF CxxOptions_init_appender] .
  moreover have "extends cls (snd (CxxTorchOptions_init e cls))"
    using is_appender_extends [OF CxxTorchOptions_init_appender] .
  moreover have "extends cls (snd (CxxTorchCudaOptions_init e cls))"
    using is_appender_extends [OF CxxTorchCudaOptions_init_appender] .
  ultimately show ?thesis
    using twice nonduplicate_append_first_occurrence by blast
qed

theorem options_deterministic_no_duplicates_witness:
  "no_duplicates BuildOptionsBase \<and>
   CxxTorchCudaOptions_init linux_env
     (snd (CxxTorchCudaOptions_init linux_env BuildOptionsBase)) =
     CxxTorchCudaOptions_init linux_env BuildOptionsBase \<and>
   no_duplicates (snd (CxxTorchCudaOptions_init linux_env BuildOptionsBase)) \<and>
   nonduplicate_append [''fPIC''] [''g'', ''fPIC'', ''g'', ''O0''] = [''fPIC'', ''g'', ''O0'']"
proof -
  have h: "no_duplicates BuildOptionsBase"
    by (simp add: no_duplicates_def BuildOptionsBase_def)
  from options_deterministic_no_duplicates
         [OF h, of linux_env "[''fPIC'']" "[''g'', ''fPIC'', ''g'', ''O0'']"]
  show ?thesis using h by simp
qed

text \<open>
  C4, as the claim states it, fails. With \<open>parent = CxxOptions()\<close> built first on Linux,
  \<^verbatim>\<open>parent.get_cflags()\<close> and \<^verbatim>\<open>parent.get_definations()\<close> give other lists once a
  \<^verbatim>\<open>CxxTorchOptions()\<close> has been constructed: the derived constructor appended
  \<^verbatim>\<open>fopenmp\<close> and the Torch macros to the lists the parent reads.
\<close>

theorem derived_init_changes_parent_lists:
  "get_cflags (snd (CxxOptions_init linux_env BuildOptionsBase))
     (fst (CxxOptions_init linux_env BuildOptionsBase)) =
     [''shared'', ''fPIC'', ''O3'', ''DNDEBUG'', ''ffast-math'', ''fno-finite-math-only'',
      ''fno-unsafe-math-optimizations'', ''march=native'', ''std=c++17'',
      ''Wno-unused-variable'', ''Wno-unknown-pragmas''] \<and>
   get_cflags
     (snd (CxxTorchOptions_init linux_env (snd (CxxOptions_init linux_env BuildOptionsBase))))
     (fst (CxxOptions_init linux_env BuildOptionsBase)) =
     [''shared'', ''fPIC'', ''O3'', ''DNDEBUG'', ''ffast-math'', ''fno-finite-math-only'',
      ''fno-unsafe-math-optimizations'', ''march=native'', ''std=c++17'',
      ''Wno-unused-variable'', ''Wno-unknown-pragmas'', ''fopenmp''] \<and>
   get_definations (snd (CxxOptions_init linux_env BuildOptionsBase))
     (fst (CxxOptions_init linux_env BuildOptionsBase)) = [] \<and>
   get_definations
     (snd (CxxTorchOptions_init linux_env (snd (CxxOptions_init linux_env BuildOptionsBase))))
     (fst (CxxOptions_init linux_env BuildOptionsBase)) =
     [''TORCH_INDUCTOR_CPP_WRAPPER'', '' C10_USING_CUSTOM_GENERATED_MACROS'',
      ''CPU_CAPABILITY=AVX2'', ''CPU_CAPABILITY_AVX2'', ''HAVE_AVX2_CPU_DEFINITION'']"
  unfolding linux_CxxTorchOptions_after_CxxOptions
  unfolding linux_CxxOptions
  by (simp add: get_cflags_def get_definations_def)

text \<open>
  C4, amended. The seven lists belong to the class and are shared by every instance of
  the three option classes: read through any two instances they are the same lists, and
  only the compiler is held per instance. No constructor copies them. Constructing a base
  or derived instance appends to the shared lists and keeps what was there as a prefix,
  so an instance built earlier sees its former lists extended at the end.
\<close>

theorem option_lists_shared_and_extended:
  "get_definations cls parent = get_definations cls derived \<and>
   get_include_dirs cls parent = get_include_dirs cls derived \<and>
   get_cflags cls parent = get_cflags cls derived \<and>
   get_ldflags cls parent = get_ldflags cls derived \<and>
   get_libraries_dirs cls parent = get_libraries_dirs cls derived \<and>
   get_libraries cls parent = get_libraries cls derived \<and>
   get_passthough_args cls parent = get_passthough_args cls derived \<and>
   get_compiler cls parent = compiler parent \<and>
   extends cls (snd (CxxOptions_init e cls)) \<and>
   extends cls (snd (CxxTorchOptions_init e cls)) \<and>
   extends cls (snd (CxxTorchCudaOptions_init e cls)) \<and>
   prefix (get_cflags cls parent) (get_cflags (snd (CxxTorchOptions_init e cls)) parent) \<and>
   prefix (get_cflags cls parent) (get_cflags (snd (CxxTorchCudaOptions_init e cls)) parent)"
proof -
  have 1: "extends cls (snd (CxxOptions_init e cls))"
    using is_appender_extends [OF CxxOptions_init_appender] .
  have 2: "extends cls (snd (CxxTorchOptions_init e cls))"
    using is_appender_extends [OF CxxTorchOptions_init_appender] .
  have 3: "extends cls (snd (CxxTorchCudaOptions_init e cls))"
    using is_appender_extends [OF CxxTorchCudaOptions_init_appender] .
  from 2 3 have "prefix (cflags cls) (cflags (snd (CxxTorchOptions_init e cls)))"
    and "prefix (cflags cls) (cflags (snd (CxxTorchCudaOptions_init e cls)))"
    by (simp_all add: extends_def)
  with 1 2 3 show ?thesis
    by (simp add: get_definations_def get_include_dirs_def get_cflags_def get_ldflags_def
        get_libraries_dirs_def get_libraries_def get_passthough_args_def get_compiler_def)
qed

lemma cflags_append [simp]:
  "cflags (append_cflags src cls) = nonduplicate_append (cflags cls) src"
  "cflags (append_definations src cls) = cflags cls"
  "cflags (append_include_dirs src cls) = cflags cls"
  "cflags (append_ldflags src cls) = cflags cls"
  "cflags (append_libraries_dirs src cls) = cflags cls"
  "cflags (append_libraries src cls) = cflags cls"
  "cflags (append_passthough_args src cls) = cflags cls"
  by (simp_all add: store_defs)

lemma get_openmp_args_linux:
  "IS_LINUX e \<Longrightarrow>
   get_openmp_args e cpp_compiler =
     (if config_is_fbcode e then ([], [], [], [], [''omp''])
      else ([''fopenmp''], [], [], [], [''gomp'']))"
  by (simp add: get_openmp_args_def IS_LINUX_not_WINDOWS IS_LINUX_not_MACOS)

text \<open>
  C5. On Linux with a GCC compiler, \<^verbatim>\<open>debug_compile\<close> off and
  \<^verbatim>\<open>enable_unsafe_math_opt_flag\<close> off, \<^verbatim>\<open>optimization_cflags()\<close> contains \<^verbatim>\<open>O3\<close>,
  \<^verbatim>\<open>DNDEBUG\<close>, \<^verbatim>\<open>ffast-math\<close>, \<^verbatim>\<open>fno-finite-math-only\<close> and
  \<^verbatim>\<open>fno-unsafe-math-optimizations\<close> and does not contain \<^verbatim>\<open>O0\<close>; so does the
  \<^verbatim>\<open>_cflags\<close> list composed by \<^verbatim>\<open>CxxOptions()\<close> and by \<^verbatim>\<open>CxxTorchOptions()\<close> from lists
  that held no \<^verbatim>\<open>O0\<close> before.
\<close>

theorem release_optimization_cflags:
  assumes "IS_LINUX e" and "is_gcc (get_cxx_compiler e)"
    and "\<not> config_aot_inductor_debug_compile e"
    and "\<not> config_cpp_enable_unsafe_math_opt_flag e"
    and "''O0'' \<notin> set (cflags cls)"
  shows "{''O3'', ''DNDEBUG'', ''ffast-math'', ''fno-finite-math-only'',
          ''fno-unsafe-math-optimizations''} \<subseteq> set (optimization_cflags e) \<and>
         ''O0'' \<notin> set (optimization_cflags e) \<and>
         {''O3'', ''DNDEBUG'', ''ffast-math'', ''fno-finite-math-only'',
          ''fno-unsafe-math-optimizations''} \<subseteq> set (cflags (snd (CxxOptions_init e cls))) \<and>
         ''O0'' \<notin> set (cflags (snd (CxxOptions_init e cls))) \<and>
         {''O3'', ''DNDEBUG'', ''ffast-math'', ''fno-finite-math-only'',
          ''fno-unsafe-math-optimizations''}
           \<subseteq> set (cflags (snd (CxxTorchOptions_init e cls))) \<and>
         ''O0'' \<notin> set (cflags (snd (CxxTorchOptions_init e cls)))"
proof -
  let ?must = "{''O3'', ''DNDEBUG'', ''ffast-math'', ''fno-finite-math-only'',
                ''fno-unsafe-math-optimizations''}"
  from assms(1) have w: "\<not> IS_WINDOWS e" by (rule IS_LINUX_not_WINDOWS)
  have opt: "?must \<subseteq> set (optimization_cflags e) \<and> ''O0'' \<notin> set (optimization_cflags e)"
    using w assms(3,4) by (simp add: optimization_cflags_def Let_def)
  have base: "set (cflags (snd (CxxOptions_init e cls))) =
                set (cflags cls) \<union> set (get_shared_cflag e) \<union> set (optimization_cflags e) \<union>
                set (get_warning_all_flag e False) \<union> set (get_cxx_std e ''c++17'') \<union>
                set (get_linux_cpp_cflags e (get_cxx_compiler e))"
    by (simp add: CxxOptions_init_unfold set_nonduplicate_append)
  have others: "''O0'' \<notin> set (get_shared_cflag e) \<union> set (get_warning_all_flag e False) \<union>
                  set (get_cxx_std e ''c++17'') \<union>
                  set (get_linux_cpp_cflags e (get_cxx_compiler e))"
    using w
    by (simp add: get_shared_cflag_def get_warning_all_flag_def get_cxx_std_def
        get_linux_cpp_cflags_def Let_def)
  have torch: "set (cflags (snd (CxxTorchOptions_init e cls))) =
                 set (cflags (snd (CxxOptions_init e cls))) \<union>
                 set (use_standard_sys_dir_headers e) \<union>
                 set (fst (get_openmp_args e (get_cxx_compiler e)))"
    using w by (simp add: CxxTorchOptions_init_unfold set_nonduplicate_append)
  have torch_others: "''O0'' \<notin> set (use_standard_sys_dir_headers e) \<union>
                        set (fst (get_openmp_args e (get_cxx_compiler e)))"
    using w by (simp add: use_standard_sys_dir_headers_def get_openmp_args_linux [OF assms(1)])
  from opt base others assms(5)
  have b: "?must \<subseteq> set (cflags (snd (CxxOptions_init e cls))) \<and>
           ''O0'' \<notin> set (cflags (snd (CxxOptions_init e cls)))"
    by blast
  with torch torch_others
  have "?must \<subseteq> set (cflags (snd (CxxTorchOptions_init e cls))) \<and>
        ''O0'' \<notin> set (cflags (snd (CxxTorchOptions_init e cls)))"
    by blast
  with opt b show ?thesis by blast
qed

theorem release_optimization_cflags_witness:
  "IS_LINUX linux_env \<and> is_gcc (get_cxx_compiler linux_env) \<and>
   \<not> config_aot_inductor_debug_compile linux_env \<and>
   \<not> config_cpp_enable_unsafe_math_opt_flag linux_env \<and>
   ''O0'' \<notin> set (cflags BuildOptionsBase) \<and>
   {''O3'', ''DNDEBUG'', ''ffast-math'', ''fno-finite-math-only'',
    ''fno-unsafe-math-optimizations''} \<subseteq> set (optimization_cflags linux_env) \<and>
   ''O0'' \<notin> set (optimization_cflags linux_env) \<and>
   ''O0'' \<notin> set (cflags (snd (CxxTorchOptions_init linux_env BuildOptionsBase)))"
proof -
  have h1: "IS_LINUX linux_env" by (simp add: linux_flag_values)
  have h2: "is_gcc (get_cxx_compiler linux_env)"
    by (simp add: linux_flag_values is_gcc_def)
  have h3: "\<not> config_aot_inductor_debug_compile linux_env"
    by (simp add: linux_env_def)
  have h4: "\<not> config_cpp_enable_unsafe_math_opt_flag linux_env"
    by (simp add: linux_env_def)
  have h5: "''O0'' \<notin> set (cflags BuildOptionsBase)"
    by (simp add: BuildOptionsBase_def)
  from release_optimization_cflags [OF h1 h2 h3 h4 h5] h1 h2 h3 h4 h5
  show ?thesis by blast
qed

text \<open>
  C9, as the claim states it, fails: on Linux outside fbcode the Clang branch and the
  GCC branch of \<^verbatim>\<open>get_openmp_args\<close> both append \<^verbatim>\<open>gomp\<close>. With \<^verbatim>\<open>clang++\<close> and with
  \<^verbatim>\<open>g++\<close> the five returned lists are the same.
\<close>

theorem openmp_library_same_for_clang_and_gcc:
  "IS_LINUX linux_clang_env \<and> \<not> config_is_fbcode linux_clang_env \<and>
   IS_LINUX linux_env \<and> \<not> config_is_fbcode linux_env \<and>
   is_clang (get_cxx_compiler linux_clang_env) \<and>
   \<not> is_clang (get_cxx_compiler linux_env) \<and> is_gcc (get_cxx_compiler linux_env) \<and>
   get_openmp_args linux_clang_env (get_cxx_compiler linux_clang_env) =
     ([''fopenmp''], [], [], [], [''gomp'']) \<and>
   get_openmp_args linux_env (get_cxx_compiler linux_env) =
     ([''fopenmp''], [], [], [], [''gomp''])"
  by code_simp

text \<open>
  C9, amended. On Linux the OpenMP library is chosen by the fbcode switch, not by the
  compiler family: \<^verbatim>\<open>omp\<close> (and no compiler flag) inside fbcode, \<^verbatim>\<open>gomp\<close> together with
  the flag \<^verbatim>\<open>fopenmp\<close> outside, for every compiler.
\<close>

theorem openmp_library_on_linux:
  assumes "IS_LINUX e"
  shows "get_openmp_args e cpp_compiler =
           (if config_is_fbcode e then ([], [], [], [], [''omp''])
            else ([''fopenmp''], [], [], [], [''gomp'']))"
  using assms by (rule get_openmp_args_linux)

theorem openmp_library_on_linux_witness:
  "IS_LINUX linux_clang_env \<and>
   get_openmp_args linux_clang_env ''clang++'' =
     (if config_is_fbcode linux_clang_env then ([], [], [], [], [''omp''])
      else ([''fopenmp''], [], [], [], [''gomp'']))"
proof -
  have h: "IS_LINUX linux_clang_env" by code_simp
  from openmp_library_on_linux [OF h, of "''clang++''"] h show ?thesis by blast
qed

lemma get_torch_cuda_args_lib64_raises:
  "IS_LINUX e \<Longrightarrow> cpp_extension_join_cuda_home e [''lib64''] = None \<Longrightarrow>
   get_torch_cuda_args e = Inl OSError"
  by (simp add: get_torch_cuda_args_def join_cuda_home_def Let_def)

lemma get_torch_cuda_args_linux_ok:
  assumes "IS_LINUX e" and "\<forall>paths. cpp_extension_join_cuda_home e paths \<noteq> None"
  shows "\<exists>args. get_torch_cuda_args e = Inr args"
proof -
  have j: "\<exists>p. join_cuda_home e paths = Inr p" for paths
  proof (cases "cpp_extension_join_cuda_home e paths")
    case None
    with assms(2) show ?thesis by blast
  next
    case (Some p)
    then show ?thesis by (simp add: join_cuda_home_def)
  qed
  obtain p64 where p64: "join_cuda_home e [''lib64''] = Inr p64" using j by blast
  obtain pl where pl: "join_cuda_home e [''lib''] = Inr pl" using j by blast
  obtain a1 where a1: "join_cuda_home e [''lib64''] = Inr a1" using j by blast
  obtain a2 where a2: "join_cuda_home e [''lib64'', ''stubs''] = Inr a2" using j by blast
  obtain b1 where b1: "join_cuda_home e [''lib''] = Inr b1" using j by blast
  obtain b2 where b2: "join_cuda_home e [''lib'', ''stubs''] = Inr b2" using j by blast
  show ?thesis
    using assms(1) by (simp add: get_torch_cuda_args_def Let_def p64 pl a2 b2)
qed

lemma cuda_compiler_fallback:
  "\<not> cuda_env_nvcc_exist e (config_cuda_cuda_cxx e) \<Longrightarrow>
   \<not> cuda_env_nvcc_exist e (os_environ e ''CUDACXX'') \<Longrightarrow>
   \<not> cuda_env_nvcc_exist e (os_environ e ''CUDA_HOME'') \<Longrightarrow>
   cuda_compiler e = Some ''nvcc''"
  by (simp add: cuda_compiler_def)

lemma cuda_compiler_some:
  assumes "\<not> cuda_env_nvcc_exist e None"
    and "\<not> cuda_env_nvcc_exist e (Some [])"
    and "\<forall>home. IS_WINDOWS e \<and> os_environ e ''CUDA_HOME'' = Some home \<longrightarrow>
           ntpath_join e home [''bin/nvcc''] \<noteq> []"
  shows "\<exists>nvcc. cuda_compiler e = Some nvcc \<and> nvcc \<noteq> []"
proof -
  have join: "os_path_join e h [''bin/nvcc''] \<noteq> []"
    if "os_environ e ''CUDA_HOME'' = Some h" for h
    using assms(3) that
    by (cases "IS_WINDOWS e")
       (auto simp: os_path_join_def posixpath_join_def posixpath_join_step_def)
  show ?thesis
  proof (cases "cuda_env_nvcc_exist e (config_cuda_cuda_cxx e)")
    case True
    with assms(1,2) obtain c where "config_cuda_cuda_cxx e = Some c" "c \<noteq> []"
      by (cases "config_cuda_cuda_cxx e") auto
    with True show ?thesis by (simp add: cuda_compiler_def)
  next
    case c1: False
    show ?thesis
    proof (cases "cuda_env_nvcc_exist e (os_environ e ''CUDACXX'')")
      case True
      with assms(1,2) obtain c where "os_environ e ''CUDACXX'' = Some c" "c \<noteq> []"
        by (cases "os_environ e ''CUDACXX''") auto
      with True c1 show ?thesis by (simp add: cuda_compiler_def)
    next
      case c2: False
      show ?thesis
      proof (cases "cuda_env_nvcc_exist e (os_environ e ''CUDA_HOME'')")
        case True
        with assms(1) obtain h where h: "os_environ e ''CUDA_HOME'' = Some h"
          by (cases "os_environ e ''CUDA_HOME''") auto
        with True c1 c2 join [OF h] show ?thesis by (simp add: cuda_compiler_def)
      next
        case False
        with c1 c2 show ?thesis by (simp add: cuda_compiler_def)
      qed
    qed
  qed
qed

lemma cuda_env_values:
  "IS_LINUX no_cuda_home_env"
  "cuda_compiler no_cuda_home_env = Some ''nvcc''"
  "get_torch_cuda_args no_cuda_home_env = Inl OSError"
  "IS_LINUX windows_env = False"
  "IS_WINDOWS windows_env"
  "cuda_compiler linux_env = Some ''nvcc''"
  "get_torch_cuda_args windows_env = Inl (NotImplementedError unsupported_env_message)"
  by code_simp+

text \<open>
  C10, as the claim states it, fails: \<^verbatim>\<open>CxxTorchCudaOptions()\<close> does not always swap
  the compiler, and an absent CUDA toolkit is signalled while the options are composed.
  On a Linux host where no \<^verbatim>\<open>nvcc\<close> is found and \<^verbatim>\<open>_join_cuda_home\<close> finds no CUDA
  install root, \<^verbatim>\<open>_cuda_compiler()\<close> returns \<^verbatim>\<open>nvcc\<close> but the constructor is left by
  \<^verbatim>\<open>OSError\<close>; on Windows it is left by \<^verbatim>\<open>NotImplementedError\<close>.
\<close>

theorem cuda_options_raise_at_composition_time:
  "IS_LINUX no_cuda_home_env \<and>
   cuda_compiler no_cuda_home_env = Some ''nvcc'' \<and>
   fst (CxxTorchCudaOptions_init no_cuda_home_env BuildOptionsBase) = Inl OSError \<and>
   IS_WINDOWS windows_env \<and>
   fst (CxxTorchCudaOptions_init windows_env BuildOptionsBase) =
     Inl (NotImplementedError unsupported_env_message)"
  by (simp add: CxxTorchCudaOptions_init_fst cuda_env_values)

text \<open>
  C10, amended. \<^verbatim>\<open>_cuda_compiler()\<close> never raises. It returns the literal \<^verbatim>\<open>nvcc\<close>
  when none of \<^verbatim>\<open>config.cuda.cuda_cxx\<close>, \<^verbatim>\<open>CUDACXX\<close> and \<^verbatim>\<open>CUDA_HOME\<close> passes the
  probe \<^verbatim>\<open>cuda_env.nvcc_exist\<close>, and it returns a string that is neither \<^verbatim>\<open>None\<close> nor
  empty whenever the probe rejects \<^verbatim>\<open>None\<close> and the empty string (and joining a path
  with \<^verbatim>\<open>bin/nvcc\<close> on Windows gives a non-empty path); a missing \<^verbatim>\<open>nvcc\<close> is
  therefore never an error while the options are composed. \<^verbatim>\<open>CxxTorchCudaOptions()\<close>
  swaps the compiler to that string whenever it returns an instance, and it returns one
  exactly when \<^verbatim>\<open>get_torch_cuda_args\<close> does not raise. \<^verbatim>\<open>get_torch_cuda_args\<close> raises
  \<^verbatim>\<open>NotImplementedError\<close> off Linux and, on Linux, the \<^verbatim>\<open>OSError\<close> of
  \<^verbatim>\<open>_join_cuda_home\<close> when no CUDA install root is found; it succeeds on Linux
  when \<^verbatim>\<open>_join_cuda_home\<close> does not raise.
\<close>

theorem cuda_compiler_and_construction:
  "(\<not> cuda_env_nvcc_exist e (config_cuda_cuda_cxx e) \<and>
    \<not> cuda_env_nvcc_exist e (os_environ e ''CUDACXX'') \<and>
    \<not> cuda_env_nvcc_exist e (os_environ e ''CUDA_HOME'') \<longrightarrow>
      cuda_compiler e = Some ''nvcc'') \<and>
   (\<not> cuda_env_nvcc_exist e None \<and> \<not> cuda_env_nvcc_exist e (Some []) \<and>
    (\<forall>home. IS_WINDOWS e \<and> os_environ e ''CUDA_HOME'' = Some home \<longrightarrow>
       ntpath_join e home [''bin/nvcc''] \<noteq> []) \<longrightarrow>
      (\<exists>nvcc. cuda_compiler e = Some nvcc \<and> nvcc \<noteq> [])) \<and>
   fst (CxxTorchCudaOptions_init e cls) =
     (case get_torch_cuda_args e of
        Inl err \<Rightarrow> Inl err
      | Inr args \<Rightarrow>
          Inr (case cuda_compiler e of
                 None \<Rightarrow> \<lparr>compiler = get_cxx_compiler e\<rparr>
               | Some nvcc \<Rightarrow> \<lparr>compiler = nvcc\<rparr>)) \<and>
   (\<not> IS_LINUX e \<longrightarrow>
      get_torch_cuda_args e = Inl (NotImplementedError unsupported_env_message)) \<and>
   (IS_LINUX e \<and> cpp_extension_join_cuda_home e [''lib64''] = None \<longrightarrow>
      get_torch_cuda_args e = Inl OSError) \<and>
   (IS_LINUX e \<and> (\<forall>paths. cpp_extension_join_cuda_home e paths \<noteq> None) \<longrightarrow>
      (\<exists>args. get_torch_cuda_args e = Inr args))"
  using cuda_compiler_fallback [of e] cuda_compiler_some [of e]
    CxxTorchCudaOptions_init_fst [of e cls] get_torch_cuda_args_not_linux [of e]
    get_torch_cuda_args_lib64_raises [of e] get_torch_cuda_args_linux_ok [of e]
  by blast

theorem cuda_compiler_and_construction_witness:
  "\<not> cuda_env_nvcc_exist linux_env None \<and> \<not> cuda_env_nvcc_exist linux_env (Some []) \<and>
   \<not> cuda_env_nvcc_exist linux_env (config_cuda_cuda_cxx linux_env) \<and>
   \<not> cuda_env_nvcc_exist linux_env (os_environ linux_env ''CUDACXX'') \<and>
   \<not> cuda_env_nvcc_exist linux_env (os_environ linux_env ''CUDA_HOME'') \<and>
   IS_LINUX linux_env \<and> (\<forall>paths. cpp_extension_join_cuda_home linux_env paths \<noteq> None) \<and>
   cuda_compiler linux_env = Some ''nvcc'' \<and>
   fst (CxxTorchCudaOptions_init linux_env BuildOptionsBase) = Inr \<lparr>compiler = ''nvcc''\<rparr> \<and>
   IS_LINUX no_cuda_home_env \<and>
   cpp_extension_join_cuda_home no_cuda_home_env [''lib64''] = None \<and>
   fst (CxxTorchCudaOptions_init no_cuda_home_env BuildOptionsBase) = Inl OSError \<and>
   \<not> IS_LINUX windows_env \<and>
   fst (CxxTorchCudaOptions_init windows_env BuildOptionsBase) =
     Inl (NotImplementedError unsupported_env_message)"
proof -
  have p: "\<not> cuda_env_nvcc_exist linux_env x" for x by (simp add: linux_env_def)
  have l: "IS_LINUX linux_env" by (simp add: linux_flag_values)
  have w: "\<not> IS_WINDOWS linux_env" by (simp add: linux_flag_values)
  have j: "\<forall>paths. cpp_extension_join_cuda_home linux_env paths \<noteq> None"
    by (simp add: linux_env_def)
  have n: "IS_LINUX no_cuda_home_env" by (simp add: cuda_env_values)
  have nj: "cpp_extension_join_cuda_home no_cuda_home_env [''lib64''] = None"
    by (simp add: no_cuda_home_env_def)
  have nw: "\<not> IS_LINUX windows_env" by (simp add: cuda_env_values)
  note a = cuda_compiler_and_construction [of linux_env BuildOptionsBase]
  note b = cuda_compiler_and_construction [of no_cuda_home_env BuildOptionsBase]
  note c = cuda_compiler_and_construction [of windows_env BuildOptionsBase]
  from a p l j w have a1: "cuda_compiler linux_env = Some ''nvcc''" by blast
  from a l j obtain args where "get_torch_cuda_args linux_env = Inr args" by blast
  with a a1 have a2: "fst (CxxTorchCudaOptions_init linux_env BuildOptionsBase) =
                       Inr \<lparr>compiler = ''nvcc''\<rparr>"
    by simp
  from b n nj have "get_torch_cuda_args no_cuda_home_env = Inl OSError" by blast
  with b have b1: "fst (CxxTorchCudaOptions_init no_cuda_home_env BuildOptionsBase) = Inl OSError"
    by simp
  from c nw have "get_torch_cuda_args windows_env =
                    Inl (NotImplementedError unsupported_env_message)"
    by blast
  with c have c1: "fst (CxxTorchCudaOptions_init windows_env BuildOptionsBase) =
                     Inl (NotImplementedError unsupported_env_message)"
    by simp
  from p l j a1 a2 n nj b1 nw c1 show ?thesis by blast
qed

section \<open>Claims about the rendered command line\<close>

lemma foldl_append_concat_map: "foldl (\<lambda>acc x. acc @ f x) a xs = a @ concat (map f xs)"
  by (induction xs arbitrary: a) simp_all

lemma str_in_sublist: "str_in needle hay \<longleftrightarrow> sublist needle hay"
  by (induction hay) (simp_all add: sublist_Cons_right)

lemma str_in_middle: "str_in needle (before @ needle @ rest)"
  by (simp add: str_in_sublist)

text \<open>
  C6, as the claim states it, fails on Windows. The command line of a builder made from
  a fresh \<^verbatim>\<open>CxxTorchOptions()\<close> contains the library token \<^verbatim>\<open>"torch.lib"\<close>, written
  between double quotes, which does not start with \<^verbatim>\<open>/\<close>. A definition is rendered
  as two tokens, \<^verbatim>\<open>/D\<close> and the macro, and the macro does not start with \<^verbatim>\<open>/\<close>
  either.
\<close>

theorem windows_library_token_has_no_slash:
  "IS_WINDOWS windows_env \<and>
   libraries_args windows_builder =
     [CHR 0x22] @ ''torch.lib'' @ [CHR 0x22] @ '' '' @
     [CHR 0x22] @ ''torch_cpu.lib'' @ [CHR 0x22] @ '' '' @
     [CHR 0x22] @ ''c10.lib'' @ [CHR 0x22] @ '' '' \<and>
   [CHR 0x22] @ ''torch.lib'' @ [CHR 0x22]
     \<in> set (filter (\<lambda>w. w \<noteq> [])
              (split_on (CHR '' '') [] (get_command_line windows_env windows_builder))) \<and>
   \<not> prefix ''/'' ([CHR 0x22] @ ''torch.lib'' @ [CHR 0x22]) \<and>
   ''TORCH_INDUCTOR_CPP_WRAPPER''
     \<in> set (filter (\<lambda>w. w \<noteq> [])
              (split_on (CHR '' '') [] (get_command_line windows_env windows_builder)))"
  unfolding windows_builder_def CxxTorchOptions_init_unfold CxxOptions_init_unfold
  by code_simp

lemma slashed_simps:
  "slashed [] = []"
  "slashed (c # s) = (if c = CHR 0x5C then CHR ''/'' else c) # slashed s"
  "slashed (u @ v) = slashed u @ slashed v"
  "slashed (concat (map f xs)) = concat (map (\<lambda>x. slashed (f x)) xs)"
  by (simp_all add: slashed_def str_replace_char_def map_concat comp_def)

lemma replace_is_slashed: "str_replace_char (CHR 0x5C) (CHR ''/'') s = slashed s"
  by (simp add: slashed_def)

text \<open>
  C6, amended. In the rendered command line every entry of the six translated lists is
  followed by a blank. On Windows, where every backslash of the finished command line is
  replaced by a forward slash, a compiler or linker flag \<open>f\<close> appears as \<^verbatim>\<open>/f\<close>, a
  definition \<open>d\<close> as \<^verbatim>\<open>/D\<close>, a blank and \<open>d\<close>, an include directory \<open>i\<close> as \<^verbatim>\<open>/I\<close>, a
  blank and \<open>i\<close>, a library directory \<open>p\<close> as \<^verbatim>\<open>/LIBPATH:"p"\<close>, and a library \<open>l\<close> as
  \<^verbatim>\<open>"l.lib"\<close>: the library reference ends in \<^verbatim>\<open>.lib\<close> inside double quotes and has no
  \<^verbatim>\<open>/\<close> in front. On every other platform the entries appear as \<^verbatim>\<open>-f\<close>, \<^verbatim>\<open>-Dd\<close>,
  \<^verbatim>\<open>-Ii\<close>, \<^verbatim>\<open>-Lp\<close> and each library name as \<^verbatim>\<open>-l<name>\<close>. The theorem gives the
  whole command line for every content of the lists; \<open>slashed\<close> is the replacement of
  the backslashes.
\<close>

theorem rendered_command_line:
  "get_command_line e (CxxBuilder_init e md name sources cls opt output_dir) =
     (if IS_WINDOWS e then
        slashed (compiler opt) @ '' '' @
        concat (map (\<lambda>i. ''/I '' @ slashed i @ '' '') (include_dirs cls)) @ '' '' @
        concat (map (\<lambda>d. ''/D '' @ slashed d @ '' '') (definations cls)) @ '' '' @
        concat (map (\<lambda>f. ''/'' @ slashed f @ '' '') (cflags cls)) @ '' '' @
        slashed (str_join '' '' sources) @ '' '' @
        concat (map (\<lambda>a. slashed a @ '' '') (passthough_args cls)) @ '' /LD /Fe'' @
        slashed (os_path_join e (case output_dir of None \<Rightarrow> md | Some x \<Rightarrow> x)
                   [name @ ''.dll'']) @
        '' /link '' @
        concat (map (\<lambda>p. ''/LIBPATH:'' @ [CHR 0x22] @ slashed p @ [CHR 0x22] @ '' '')
                  (libraries_dirs cls)) @ '' '' @
        concat (map (\<lambda>l. [CHR 0x22] @ slashed l @ ''.lib'' @ [CHR 0x22] @ '' '')
                  (libraries cls)) @ '' '' @
        concat (map (\<lambda>f. ''/'' @ slashed f @ '' '') (ldflags cls)) @ '' ''
      else
        compiler opt @ '' '' @ str_join '' '' sources @ '' '' @
        concat (map (\<lambda>d. ''-D'' @ d @ '' '') (definations cls)) @ '' '' @
        concat (map (\<lambda>f. ''-'' @ f @ '' '') (cflags cls)) @ '' '' @
        concat (map (\<lambda>i. ''-I'' @ i @ '' '') (include_dirs cls)) @ '' '' @
        concat (map (\<lambda>a. a @ '' '') (passthough_args cls)) @ '' '' @
        concat (map (\<lambda>f. ''-'' @ f @ '' '') (ldflags cls)) @ '' '' @
        concat (map (\<lambda>l. ''-l'' @ l @ '' '') (libraries cls)) @ '' '' @
        concat (map (\<lambda>p. ''-L'' @ p @ '' '') (libraries_dirs cls)) @ '' -o '' @
        os_path_join e (case output_dir of None \<Rightarrow> md | Some x \<Rightarrow> x) [name @ ''.so''])"
proof (cases "IS_WINDOWS e")
  case True
  then show ?thesis
    by (simp add: get_command_line_def format_build_command_def CxxBuilder_init_def Let_def
        store_defs get_shared_lib_ext_def foldl_append_concat_map replace_is_slashed
        slashed_simps)
next
  case False
  then show ?thesis
    by (simp add: get_command_line_def format_build_command_def CxxBuilder_init_def Let_def
        store_defs get_shared_lib_ext_def foldl_append_concat_map)
qed

text \<open>
  C7. On Linux the command line for the sources \<^verbatim>\<open>a.cpp\<close>, \<^verbatim>\<open>b.cpp\<close> and the name
  \<^verbatim>\<open>libfoo\<close> starts with the compiler followed by \<^verbatim>\<open>a.cpp b.cpp\<close>, so both source
  paths occur in it in order and before every other group, and it ends with \<^verbatim>\<open>-o\<close>
  and the target: the file \<^verbatim>\<open>libfoo.so\<close> in the output directory \<open>d\<close>, which is
  \<^verbatim>\<open>os.path.join(d, "libfoo.so")\<close> and reads \<^verbatim>\<open>d/libfoo.so\<close> whenever \<open>d\<close> is not empty
  and has no trailing slash. This holds for every content of the option lists.
\<close>

theorem linux_command_line_shape:
  assumes "IS_LINUX e"
    and "d = (case output_dir of None \<Rightarrow> module_dirname | Some x \<Rightarrow> x)"
    and "cmd = get_command_line e
                 (CxxBuilder_init e module_dirname ''libfoo'' [''a.cpp'', ''b.cpp'']
                    cls opt output_dir)"
  shows "prefix (compiler opt @ '' a.cpp b.cpp '') cmd \<and>
         str_in ''a.cpp'' cmd \<and> str_in ''b.cpp'' cmd \<and>
         suffix (''-o '' @ posixpath_join d [''libfoo.so'']) cmd \<and>
         (d \<noteq> [] \<and> last d \<noteq> CHR ''/'' \<longrightarrow> suffix (''-o '' @ d @ ''/libfoo.so'') cmd)"
proof -
  from assms(1) have w: "\<not> IS_WINDOWS e" by (rule IS_LINUX_not_WINDOWS)
  obtain mid where cmd: "cmd = compiler opt @ '' a.cpp b.cpp '' @ mid @
                                 '' -o '' @ posixpath_join d [''libfoo.so'']"
    using w assms(2,3)
    by (simp add: get_command_line_def format_build_command_def CxxBuilder_init_def Let_def
        get_compiler_def get_shared_lib_ext_def os_path_join_def)
  have p: "prefix (compiler opt @ '' a.cpp b.cpp '') cmd"
    unfolding cmd by simp
  have a: "str_in ''a.cpp'' cmd"
    using str_in_middle [of "''a.cpp''" "compiler opt @ '' ''"] unfolding cmd by simp
  have b: "str_in ''b.cpp'' cmd"
    using str_in_middle [of "''b.cpp''" "compiler opt @ '' a.cpp ''"] unfolding cmd by simp
  have s: "suffix (''-o '' @ posixpath_join d [''libfoo.so'']) cmd"
    unfolding cmd suffix_def
    by (rule exI [of _ "compiler opt @ '' a.cpp b.cpp '' @ mid @ '' ''"]) simp
  have j: "posixpath_join d [''libfoo.so''] = d @ ''/libfoo.so''"
    if "d \<noteq> [] \<and> last d \<noteq> CHR ''/''"
    using that by (simp add: posixpath_join_def posixpath_join_step_def)
  from p a b s j show ?thesis by auto
qed

theorem linux_command_line_shape_witness:
  "IS_LINUX linux_env \<and>
   ''out'' \<noteq> [] \<and> last ''out'' \<noteq> CHR ''/'' \<and>
   prefix (compiler \<lparr>compiler = ''g++''\<rparr> @ '' a.cpp b.cpp '')
     (get_command_line linux_env
        (CxxBuilder_init linux_env ''/m'' ''libfoo'' [''a.cpp'', ''b.cpp'']
           BuildOptionsBase \<lparr>compiler = ''g++''\<rparr> (Some ''out''))) \<and>
   suffix ''-o out/libfoo.so''
     (get_command_line linux_env
        (CxxBuilder_init linux_env ''/m'' ''libfoo'' [''a.cpp'', ''b.cpp'']
           BuildOptionsBase \<lparr>compiler = ''g++''\<rparr> (Some ''out'')))"
proof -
  have h1: "IS_LINUX linux_env" by (simp add: linux_flag_values)
  have h2: "''out'' = (case Some ''out'' of None \<Rightarrow> ''/m'' | Some x \<Rightarrow> x)" by simp
  from linux_command_line_shape
         [OF h1 h2 refl, where cls = BuildOptionsBase and opt = "\<lparr>compiler = ''g++''\<rparr>"] h1
  show ?thesis by simp
qed

section \<open>Claims about running the compiler\<close>

lemma str_in_append_left: "str_in needle hay \<Longrightarrow> str_in needle (before @ hay)"
  unfolding str_in_sublist sublist_def
  by (metis append.assoc)

lemma openmp_instruction_contents:
  "str_in ''OMP_PREFIX'' openmp_instruction"
  "str_in ''(1) '' openmp_instruction"
  "str_in ''(2) '' openmp_instruction"
  "str_in ''(3) '' openmp_instruction"
  "str_in ''(4) '' openmp_instruction"
  by code_simp+

text \<open>
  When the command line was split into \<open>cmd\<close>, the child process exited with a
  status other than zero and its captured bytes decode to \<open>output\<close>,
  \<^verbatim>\<open>run_command_line\<close> raises \<^verbatim>\<open>CppCompileError\<close> with \<open>cmd\<close> and a text that starts
  with the whole of \<open>output\<close>. On macOS (\<^verbatim>\<open>sys.platform == "darwin"\<close>), when \<open>output\<close>
  contains \<^verbatim>\<open>libomp\<close> or \<^verbatim>\<open>'omp.h' file not found\<close>, the text is \<open>output\<close> followed by
  the remediation message, which names \<^verbatim>\<open>OMP_PREFIX\<close> and lists the fixes (1) to (4);
  in every other case the text is \<open>output\<close> itself.
\<close>

lemma decodable_failure_raises_compile_error:
  assumes "shlex_split rt cmd_line = Some cmd"
    and "spawn rt cmd cwd root = (Exited returncode captured, root')"
    and "returncode \<noteq> 0"
    and "decode_utf8 rt captured = Some output"
  shows "\<exists>reported.
           run_command_line e rt cmd_line cwd root =
             (Inl (CppCompileError cmd reported), root') \<and>
           prefix output reported \<and>
           (sys_platform e = ''darwin'' \<and>
            (str_in ''libomp'' output \<or> str_in omp_h_not_found output) \<longrightarrow>
              reported = output @ openmp_instruction \<and>
              str_in ''OMP_PREFIX'' reported \<and> str_in ''(1) '' reported \<and>
              str_in ''(2) '' reported \<and> str_in ''(3) '' reported \<and>
              str_in ''(4) '' reported) \<and>
           (\<not> (sys_platform e = ''darwin'' \<and>
               (str_in ''libomp'' output \<or> str_in omp_h_not_found output)) \<longrightarrow>
              reported = output)"
proof (cases "sys_platform e = ''darwin'' \<and>
              (str_in ''libomp'' output \<or> str_in omp_h_not_found output)")
  case True
  have run: "run_command_line e rt cmd_line cwd root =
               (Inl (CppCompileError cmd (output @ openmp_instruction)), root')"
    using assms True by (auto simp: run_command_line_def Let_def)
  have "str_in ''OMP_PREFIX'' (output @ openmp_instruction)"
    and "str_in ''(1) '' (output @ openmp_instruction)"
    and "str_in ''(2) '' (output @ openmp_instruction)"
    and "str_in ''(3) '' (output @ openmp_instruction)"
    and "str_in ''(4) '' (output @ openmp_instruction)"
    by (rule str_in_append_left, rule openmp_instruction_contents)+
  with run True show ?thesis by auto
next
  case False
  have "run_command_line e rt cmd_line cwd root = (Inl (CppCompileError cmd output), root')"
    using assms False by (auto simp: run_command_line_def Let_def)
  with False show ?thesis by auto
qed

lemma decodable_failure_on_macos:
  "shlex_split omp_failing_runtime ''g++ a.cpp'' = Some [''g++'', ''a.cpp''] \<and>
   spawn omp_failing_runtime [''g++'', ''a.cpp''] ''out'' (Dir []) =
     (Exited 1 ''dyld: Library not loaded: libomp.dylib'', Dir []) \<and>
   (1::int) \<noteq> 0 \<and>
   decode_utf8 omp_failing_runtime ''dyld: Library not loaded: libomp.dylib'' =
     Some ''dyld: Library not loaded: libomp.dylib'' \<and>
   sys_platform darwin_env = ''darwin'' \<and>
   str_in ''libomp'' ''dyld: Library not loaded: libomp.dylib'' \<and>
   run_command_line darwin_env omp_failing_runtime ''g++ a.cpp'' ''out'' (Dir []) =
     (Inl (CppCompileError [''g++'', ''a.cpp'']
             (''dyld: Library not loaded: libomp.dylib'' @ openmp_instruction)), Dir []) \<and>
   str_in ''OMP_PREFIX'' (''dyld: Library not loaded: libomp.dylib'' @ openmp_instruction)"
proof -
  have h1: "shlex_split omp_failing_runtime ''g++ a.cpp'' = Some [''g++'', ''a.cpp'']"
    by code_simp
  have h2: "spawn omp_failing_runtime [''g++'', ''a.cpp''] ''out'' (Dir []) =
              (Exited 1 ''dyld: Library not loaded: libomp.dylib'', Dir [])"
    by (simp add: omp_failing_runtime_def failing_runtime_def)
  have h3: "(1::int) \<noteq> 0" by simp
  have h4: "decode_utf8 omp_failing_runtime ''dyld: Library not loaded: libomp.dylib'' =
              Some ''dyld: Library not loaded: libomp.dylib''"
    by (simp add: omp_failing_runtime_def failing_runtime_def)
  have p: "sys_platform darwin_env = ''darwin''"
    by (simp add: darwin_env_def)
  have s: "str_in ''libomp'' ''dyld: Library not loaded: libomp.dylib''"
    by code_simp
  from decodable_failure_raises_compile_error [OF h1 h2 h3 h4, of darwin_env] p s
  have "run_command_line darwin_env omp_failing_runtime ''g++ a.cpp'' ''out'' (Dir []) =
     (Inl (CppCompileError [''g++'', ''a.cpp'']
             (''dyld: Library not loaded: libomp.dylib'' @ openmp_instruction)), Dir []) \<and>
   str_in ''OMP_PREFIX'' (''dyld: Library not loaded: libomp.dylib'' @ openmp_instruction)"
    by auto
  with h1 h2 h3 h4 p s show ?thesis by blast
qed

text \<open>
  C8. The claim fails on a compiler output that is not UTF-8. The compiler exits with
  status 1 and its captured bytes name a header whose file name is encoded in Latin-1;
  \<^verbatim>\<open>e.output.decode("utf-8")\<close> raises inside the handler of \<^verbatim>\<open>CalledProcessError\<close>,
  so \<^verbatim>\<open>run_command_line\<close> is left by \<^verbatim>\<open>UnicodeDecodeError\<close>: no \<^verbatim>\<open>CppCompileError\<close>
  is raised and the captured output is lost.
\<close>

theorem undecodable_output_loses_compile_error:
  "shlex_split undecodable_runtime ''g++ a.cpp'' = Some [''g++'', ''a.cpp''] \<and>
   spawn undecodable_runtime [''g++'', ''a.cpp''] ''out'' (Dir []) =
     (Exited 1 latin1_output, Dir []) \<and>
   decode_utf8 undecodable_runtime latin1_output = None \<and>
   run_command_line linux_env undecodable_runtime ''g++ a.cpp'' ''out'' (Dir []) =
     (Inl UnicodeDecodeError, Dir []) \<and>
   run_command_line linux_env undecodable_runtime ''g++ a.cpp'' ''out'' (Dir []) \<noteq>
     (Inl (CppCompileError [''g++'', ''a.cpp''] latin1_output), Dir [])"
  by code_simp

text \<open>
  An exception of \<^verbatim>\<open>run_command_line\<close> leaves \<^verbatim>\<open>build()\<close> at once: the call of
  \<^verbatim>\<open>_remove_dir\<close> that follows it is not reached, and the file system stays as the
  child process left it.
\<close>

lemma build_raise_skips_remove_dir:
  assumes "create_if_dir_not_exist (builder_output_dir self) (fs w) = Inr root1"
    and "create_if_dir_not_exist
           (os_path_join e (builder_output_dir self) [builder_name self @ ''_'' @ BUILD_TEMP_DIR])
           root1 = Inr root2"
    and "run_command_line e rt (get_command_line e self)
           (os_path_join e (builder_output_dir self) [builder_name self @ ''_'' @ BUILD_TEMP_DIR])
           root2 = (Inl err, root3)"
  shows "fst (build e rt self w) = Inl err \<and> fs (snd (build e rt self w)) = root3"
  using assms by (simp add: build_def Let_def)

text \<open>
  Whenever \<^verbatim>\<open>build()\<close> returns, the first component of the pair is the byte string
  captured from the child process.
\<close>

lemma build_status_is_captured_output:
  assumes "fst (build e rt self w) = Inr (status, target)"
  shows "(\<exists>captured. status = PyBytes captured) \<and> target = target_file self"
  using assms
  by (auto simp: build_def run_command_line_def Let_def
      split: sum.splits prod.splits option.splits proc.splits if_splits)

text \<open>
  C2. The claim holds when the compiler succeeds and fails when it does not. For the
  builder of \<^verbatim>\<open>libfoo\<close> in \<^verbatim>\<open>out\<close> and a compiler that exits with status 1,
  \<^verbatim>\<open>build()\<close> is left by \<^verbatim>\<open>CppCompileError\<close> and the scratch directory
  \<^verbatim>\<open>out/libfoo_CxxBuild\<close> is still there; with a compiler that exits with status 0 the
  directory is gone.
\<close>

theorem build_failure_leaves_scratch_directory:
  "fst (build linux_env failing_runtime demo_builder empty_world) =
     Inl (CppCompileError
            [''g++'', ''a.cpp'', ''-shared'', ''-fPIC'', ''-O3'', ''-DNDEBUG'', ''-ffast-math'',
             ''-fno-finite-math-only'', ''-fno-unsafe-math-optimizations'', ''-march=native'',
             ''-std=c++17'', ''-Wno-unused-variable'', ''-Wno-unknown-pragmas'', ''-o'',
             ''out/libfoo.so'']
            ''a.cpp:1:1: error: expected declaration'') \<and>
   fs (snd (build linux_env failing_runtime demo_builder empty_world)) =
     Dir [(''out'', Dir [(''libfoo_CxxBuild'', Dir [])])] \<and>
   path_exists (fs (snd (build linux_env failing_runtime demo_builder empty_world)))
     ''out/libfoo_CxxBuild'' \<and>
   \<not> path_exists (fs (snd (build linux_env succeeding_runtime demo_builder empty_world)))
       ''out/libfoo_CxxBuild''"
  by code_simp

text \<open>
  C3. The second component of the returned pair is the path of the artifact, but the
  first one is not the exit status: for the builder of \<^verbatim>\<open>libfoo\<close> in \<^verbatim>\<open>out\<close> and a
  compiler that exits with status 0 after printing a warning, \<^verbatim>\<open>build()\<close> returns the
  captured bytes of the warning and \<^verbatim>\<open>out/libfoo.so\<close>, not the integer 0.
\<close>

theorem build_returns_captured_bytes:
  "fst (build linux_env succeeding_runtime demo_builder empty_world) =
     Inr (PyBytes ''a.cpp:3:7: warning: unused variable'', ''out/libfoo.so'') \<and>
   fst (build linux_env succeeding_runtime demo_builder empty_world) \<noteq>
     Inr (PyInt 0, ''out/libfoo.so'') \<and>
   target_file demo_builder = ''out/libfoo.so''"
  by code_simp

end
